theory Spec2Isabelle
  imports Complex_Main
begin

section \<open>Data model of package domaininfo\<close>

text \<open>
  A Go \<^verbatim>\<open>error\<close> value is identified with its message (what \<^verbatim>\<open>err.Error()\<close> and the
  verb \<^verbatim>\<open>%v\<close> print). A Go result pair \<^verbatim>\<open>(x, err)\<close> is a pair whose second component is
  \<open>None\<close> for \<^verbatim>\<open>nil\<close>; a pointer is an \<open>option\<close>, \<open>None\<close> for \<^verbatim>\<open>nil\<close>.
  Strings are byte lists, as Go's are. The type variable \<open>'f\<close> stands for \<^verbatim>\<open>float64\<close>.
\<close>

datatype error = Error (message: string)

record 'f LocationDetails =
  IP :: string
  City :: string
  Region :: string
  Country :: string
  Latitude :: 'f
  Longitude :: 'f

record 'f DomainInfo =
  OriginalInput :: string
  CleanDomain :: string
  IPAddress :: string
  Location :: "'f LocationDetails option"

text \<open>The zero value of \<^verbatim>\<open>LocationDetails\<close> (\<^verbatim>\<open>var location LocationDetails\<close>, \<^verbatim>\<open>&LocationDetails{}\<close>).\<close>

definition zero_LocationDetails :: "('f::zero) LocationDetails" where
  "zero_LocationDetails =
     \<lparr>IP = [], City = [], Region = [], Country = [], Latitude = 0, Longitude = 0\<rparr>"

section \<open>The outside world and the standard library\<close>

text \<open>
  The package talks to the network through \<^verbatim>\<open>net.LookupIP\<close> and \<^verbatim>\<open>http.Get\<close>. Every such
  call is recorded in a log, and what the network answers may depend on everything that
  was asked before (two lookups of one name need not agree).
\<close>

datatype request = DNSLookup string | HTTPGet string

type_synonym world = "request list"

text \<open>
  The outcome of \<^verbatim>\<open>http.Get\<close> followed by \<^verbatim>\<open>io.ReadAll(resp.Body)\<close>: a transport error, or
  a response with its status code and either a read error or the bytes of the body.
\<close>

datatype http_result = GetErr error | Response nat "error + string"

text \<open>
  A value that \<^verbatim>\<open>encoding/json\<close> stores in an \<^verbatim>\<open>interface{}\<close>: \<^verbatim>\<open>nil\<close>, \<^verbatim>\<open>bool\<close>,
  \<^verbatim>\<open>float64\<close>, \<^verbatim>\<open>string\<close>, \<^verbatim>\<open>[]interface{}\<close> or \<^verbatim>\<open>map[string]interface{}\<close>.
\<close>

datatype 'f iface =
    INil
  | IBool bool
  | IFloat64 'f
  | IString string
  | ISlice "'f iface list"
  | IMap "(string \<times> 'f iface) list"

text \<open>
  The functions of the Go standard library that the package calls and that are not
  string manipulation are parameters of the model:
  \<^item> \<open>net_LookupIP\<close>: \<^verbatim>\<open>net.LookupIP\<close>, the addresses (\<^verbatim>\<open>[]net.IP\<close>, byte strings) and the error;
  \<^item> \<open>net_IP_String\<close>: \<^verbatim>\<open>net.IP.String\<close>;
  \<^item> \<open>http_Get\<close>: \<^verbatim>\<open>http.Get\<close> and \<^verbatim>\<open>io.ReadAll\<close> of the body;
  \<^item> \<open>json_Unmarshal_LocationDetails\<close>: \<^verbatim>\<open>json.Unmarshal\<close> into a zero \<^verbatim>\<open>LocationDetails\<close>: the
    struct as the decoder leaves it, and the error;
  \<^item> \<open>json_Unmarshal_map\<close>: \<^verbatim>\<open>json.Unmarshal\<close> into a nil \<^verbatim>\<open>map[string]interface{}\<close>;
  \<^item> \<open>fmt_Sscanf_f\<close>: \<^verbatim>\<open>fmt.Sscanf(s, "%f", &x)\<close>: the number stored in \<open>x\<close>, or \<open>None\<close> when
    the scan fails and \<open>x\<close> keeps its value;
  \<^item> \<open>url_Parse_Hostname\<close>: \<^verbatim>\<open>url.Parse\<close> followed by \<^verbatim>\<open>Hostname()\<close>, \<open>None\<close> when parsing
    fails.
\<close>

record 'f env =
  net_LookupIP :: "world \<Rightarrow> string \<Rightarrow> string list \<times> error option"
  net_IP_String :: "string \<Rightarrow> string"
  http_Get :: "world \<Rightarrow> string \<Rightarrow> http_result"
  json_Unmarshal_LocationDetails :: "string \<Rightarrow> 'f LocationDetails \<times> error option"
  json_Unmarshal_map :: "string \<Rightarrow> (string \<Rightarrow> 'f iface option) \<times> error option"
  fmt_Sscanf_f :: "string \<Rightarrow> 'f option"
  url_Parse_Hostname :: "string \<Rightarrow> string option"

definition LookupIP_call ::
  "'f env \<Rightarrow> string \<Rightarrow> world \<Rightarrow> (string list \<times> error option) \<times> world" where
  "LookupIP_call env host w = (net_LookupIP env w host, w @ [DNSLookup host])"

definition Get_call :: "'f env \<Rightarrow> string \<Rightarrow> world \<Rightarrow> http_result \<times> world" where
  "Get_call env url w = (http_Get env w url, w @ [HTTPGet url])"

text \<open>The type assertion \<^verbatim>\<open>v, _ = data[key].(string)\<close>: the empty string unless a string is stored.\<close>

fun assert_string :: "'f iface option \<Rightarrow> string" where
  "assert_string (Some (IString s)) = s"
| "assert_string _ = []"

subsection \<open>Package strings\<close>

definition strings_HasPrefix :: "string \<Rightarrow> string \<Rightarrow> bool" where
  "strings_HasPrefix s pre = (length pre \<le> length s \<and> take (length pre) s = pre)"

definition strings_TrimPrefix :: "string \<Rightarrow> string \<Rightarrow> string" where
  "strings_TrimPrefix s pre = (if strings_HasPrefix s pre then drop (length pre) s else s)"

text \<open>
  \<^verbatim>\<open>strings.Split(s, sep)\<close> for a separator of one byte (the package splits at a comma):
  the pieces between the separators, one more than there are separators.
\<close>

fun Split_from :: "string \<Rightarrow> char \<Rightarrow> string \<Rightarrow> string list" where
  "Split_from piece sep [] = [rev piece]"
| "Split_from piece sep (c # cs) =
     (if c = sep then rev piece # Split_from [] sep cs else Split_from (c # piece) sep cs)"

definition strings_Split :: "string \<Rightarrow> char \<Rightarrow> string list" where
  "strings_Split s sep = Split_from [] sep s"

text \<open>
  \<^verbatim>\<open>strings.TrimSpace\<close> removes the leading and the trailing runes for which
  \<^verbatim>\<open>unicode.IsSpace\<close> holds. These are the UTF-8 encodings of the white space runes:
  U+0009 to U+000D, U+0020, U+0085, U+00A0, U+1680, U+2000 to U+200A, U+2028, U+2029,
  U+202F, U+205F and U+3000.
\<close>

definition space_encodings :: "nat list list" where
  "space_encodings =
     [[0x09], [0x0A], [0x0B], [0x0C], [0x0D], [0x20],
      [0xC2, 0x85], [0xC2, 0xA0],
      [0xE1, 0x9A, 0x80],
      [0xE2, 0x80, 0x80], [0xE2, 0x80, 0x81], [0xE2, 0x80, 0x82], [0xE2, 0x80, 0x83],
      [0xE2, 0x80, 0x84], [0xE2, 0x80, 0x85], [0xE2, 0x80, 0x86], [0xE2, 0x80, 0x87],
      [0xE2, 0x80, 0x88], [0xE2, 0x80, 0x89], [0xE2, 0x80, 0x8A],
      [0xE2, 0x80, 0xA8], [0xE2, 0x80, 0xA9], [0xE2, 0x80, 0xAF],
      [0xE2, 0x81, 0x9F],
      [0xE3, 0x80, 0x80]]"

definition is_space_rune :: "string \<Rightarrow> bool" where
  "is_space_rune bs = (map of_char bs \<in> set space_encodings)"

text \<open>The width in bytes of a white space rune at the start (the end) of a string, else 0.\<close>

definition leading_space :: "string \<Rightarrow> nat" where
  "leading_space s =
     (if is_space_rune (take 1 s) then 1
      else if is_space_rune (take 2 s) then 2
      else if is_space_rune (take 3 s) then 3
      else 0)"

definition trailing_space :: "string \<Rightarrow> nat" where
  "trailing_space s =
     (if is_space_rune (drop (length s - 1) s) then 1
      else if is_space_rune (drop (length s - 2) s) then 2
      else if is_space_rune (drop (length s - 3) s) then 3
      else 0)"

fun TrimLeftSpace :: "string \<Rightarrow> string" where
  "TrimLeftSpace [] = []"
| "TrimLeftSpace (c # cs) =
     (if leading_space (c # cs) = 0 then c # cs
      else TrimLeftSpace (drop (leading_space (c # cs) - 1) cs))"

fun TrimRightSpace_rev :: "string \<Rightarrow> string" where
  "TrimRightSpace_rev [] = []"
| "TrimRightSpace_rev (c # cs) =
     (if trailing_space (rev (c # cs)) = 0 then c # cs
      else TrimRightSpace_rev (drop (trailing_space (rev (c # cs)) - 1) cs))"

definition TrimRightSpace :: "string \<Rightarrow> string" where
  "TrimRightSpace s = rev (TrimRightSpace_rev (rev s))"

definition strings_TrimSpace :: "string \<Rightarrow> string" where
  "strings_TrimSpace s = TrimRightSpace (TrimLeftSpace s)"

subsection \<open>Package regexp\<close>

text \<open>
  Regular expressions over bytes, with the derivative matcher deciding whether the whole
  string matches (the pattern of the package is anchored by \<^verbatim>\<open>^\<close> and \<^verbatim>\<open>$\<close>, and its
  classes hold ASCII characters only). A class is a list of inclusive ranges.
\<close>

datatype rexp =
    Zero
  | One
  | Lit char
  | Class "(char \<times> char) list"
  | Seq rexp rexp
  | Alt rexp rexp
  | Star rexp

definition in_class :: "(char \<times> char) list \<Rightarrow> char \<Rightarrow> bool" where
  "in_class rs c =
     list_ex (\<lambda>(lo, hi). (of_char lo :: nat) \<le> of_char c \<and> (of_char c :: nat) \<le> of_char hi) rs"

text \<open>The postfix operators \<^verbatim>\<open>?\<close>, \<^verbatim>\<open>+\<close>, \<^verbatim>\<open>{n}\<close>, \<^verbatim>\<open>{0,n}\<close> and \<^verbatim>\<open>{n,}\<close>.\<close>

definition Opt :: "rexp \<Rightarrow> rexp" where
  "Opt r = Alt One r"

definition Plus :: "rexp \<Rightarrow> rexp" where
  "Plus r = Seq r (Star r)"

fun rep_exact :: "nat \<Rightarrow> rexp \<Rightarrow> rexp" where
  "rep_exact 0 r = One"
| "rep_exact (Suc n) r = Seq r (rep_exact n r)"

fun rep_upto :: "nat \<Rightarrow> rexp \<Rightarrow> rexp" where
  "rep_upto 0 r = One"
| "rep_upto (Suc n) r = Opt (Seq r (rep_upto n r))"

definition rep_atleast :: "nat \<Rightarrow> rexp \<Rightarrow> rexp" where
  "rep_atleast n r = Seq (rep_exact n r) (Star r)"

fun nullable :: "rexp \<Rightarrow> bool" where
  "nullable Zero = False"
| "nullable One = True"
| "nullable (Lit c) = False"
| "nullable (Class rs) = False"
| "nullable (Seq r s) = (nullable r \<and> nullable s)"
| "nullable (Alt r s) = (nullable r \<or> nullable s)"
| "nullable (Star r) = True"

fun deriv :: "char \<Rightarrow> rexp \<Rightarrow> rexp" where
  "deriv c Zero = Zero"
| "deriv c One = Zero"
| "deriv c (Lit d) = (if c = d then One else Zero)"
| "deriv c (Class rs) = (if in_class rs c then One else Zero)"
| "deriv c (Seq r s) =
     (if nullable r then Alt (Seq (deriv c r) s) (deriv c s) else Seq (deriv c r) s)"
| "deriv c (Alt r s) = Alt (deriv c r) (deriv c s)"
| "deriv c (Star r) = Seq (deriv c r) (Star r)"

fun matches :: "rexp \<Rightarrow> string \<Rightarrow> bool" where
  "matches r [] = nullable r"
| "matches r (c # cs) = matches (deriv c r) cs"

text \<open>The language of a regular expression, against which the matcher is verified.\<close>

definition conc :: "string set \<Rightarrow> string set \<Rightarrow> string set" where
  "conc A B = {u @ v | u v. u \<in> A \<and> v \<in> B}"

inductive_set star :: "string set \<Rightarrow> string set" for A :: "string set" where
  star_empty: "[] \<in> star A"
| star_more: "u \<in> A \<Longrightarrow> v \<in> star A \<Longrightarrow> u @ v \<in> star A"

fun lang :: "rexp \<Rightarrow> string set" where
  "lang Zero = {}"
| "lang One = {[]}"
| "lang (Lit c) = {[c]}"
| "lang (Class rs) = {[c] | c. in_class rs c}"
| "lang (Seq r s) = conc (lang r) (lang s)"
| "lang (Alt r s) = lang r \<union> lang s"
| "lang (Star r) = star (lang r)"

section \<open>The package\<close>

subsection \<open>Input normalisation and format check\<close>

definition cleanDomainInput :: "'f env \<Rightarrow> string \<Rightarrow> string" where
  "cleanDomainInput env input =
     (let input1 =
            (if strings_HasPrefix input ''http://'' \<or> strings_HasPrefix input ''https://''
             then (case url_Parse_Hostname env input of Some host \<Rightarrow> host | None \<Rightarrow> input)
             else input);
          input2 = strings_TrimPrefix input1 ''www.''
      in strings_TrimSpace input2)"

text \<open>The character classes \<^verbatim>\<open>[a-zA-Z]\<close>, \<^verbatim>\<open>[a-zA-Z0-9]\<close> and \<^verbatim>\<open>[a-zA-Z0-9-]\<close>.\<close>

definition alpha :: "(char \<times> char) list" where
  "alpha = [(CHR ''a'', CHR ''z''), (CHR ''A'', CHR ''Z'')]"

definition alnum :: "(char \<times> char) list" where
  "alnum = [(CHR ''a'', CHR ''z''), (CHR ''A'', CHR ''Z''), (CHR ''0'', CHR ''9'')]"

definition alnum_hyphen :: "(char \<times> char) list" where
  "alnum_hyphen =
     [(CHR ''a'', CHR ''z''), (CHR ''A'', CHR ''Z''), (CHR ''0'', CHR ''9''),
      (CHR ''-'', CHR ''-'')]"

text \<open>
  The pattern \<^verbatim>\<open>^[a-zA-Z0-9]([a-zA-Z0-9-]{0,61}[a-zA-Z0-9])?(\.[a-zA-Z]{2,})+$\<close>.
\<close>

definition domainRegex :: rexp where
  "domainRegex =
     Seq (Class alnum)
       (Seq (Opt (Seq (rep_upto 61 (Class alnum_hyphen)) (Class alnum)))
            (Plus (Seq (Lit (CHR ''.'')) (rep_atleast 2 (Class alpha)))))"

definition isValidDomainFormat :: "string \<Rightarrow> bool" where
  "isValidDomainFormat domain = matches domainRegex domain"

subsection \<open>Resolver\<close>

definition getIPAddress :: "'f env \<Rightarrow> string \<Rightarrow> world \<Rightarrow> (string \<times> error option) \<times> world" where
  "getIPAddress env domain w =
     (case LookupIP_call env domain w of
        ((ips, err), w') \<Rightarrow>
          if err \<noteq> None \<or> length ips = 0 then (([], err), w')
          else ((net_IP_String env (ips ! 0), None), w'))"

definition checkDNSResolution :: "'f env \<Rightarrow> string \<Rightarrow> world \<Rightarrow> bool \<times> world" where
  "checkDNSResolution env domain w =
     (case LookupIP_call env domain w of ((ips, err), w') \<Rightarrow> (err = None, w'))"

subsection \<open>Provider adapters\<close>

type_synonym 'f lookup = "('f LocationDetails option \<times> error option) \<times> world"

definition getIPAPILocation :: "('f::zero) env \<Rightarrow> string \<Rightarrow> world \<Rightarrow> 'f lookup" where
  "getIPAPILocation env ip w =
     (case Get_call env (''https://ipapi.co/'' @ ip @ ''/json/'') w of
        (GetErr err, w') \<Rightarrow> ((None, Some err), w')
      | (Response status rd, w') \<Rightarrow>
          (case rd of
             Inl err \<Rightarrow> ((None, Some err), w')
           | Inr body \<Rightarrow>
               (case json_Unmarshal_LocationDetails env body of
                  (location, Some err) \<Rightarrow> ((None, Some err), w')
                | (location, None) \<Rightarrow>
                    if City location = [] \<and> Country location = []
                    then ((None, Some (Error ''no location data'')), w')
                    else ((Some location, None), w'))))"

definition getIPInfoLocation :: "('f::zero) env \<Rightarrow> string \<Rightarrow> world \<Rightarrow> 'f lookup" where
  "getIPInfoLocation env ip w =
     (case Get_call env (''https://ipinfo.io/'' @ ip @ ''/json'') w of
        (GetErr err, w') \<Rightarrow> ((None, Some err), w')
      | (Response status rd, w') \<Rightarrow>
          (case rd of
             Inl err \<Rightarrow> ((None, Some err), w')
           | Inr body \<Rightarrow>
               (case json_Unmarshal_map env body of
                  (data, Some err) \<Rightarrow> ((None, Some err), w')
                | (data, None) \<Rightarrow>
                    let location0 = zero_LocationDetails;
                        location1 =
                          (case data ''loc'' of
                             Some (IString loc) \<Rightarrow>
                               let coords = strings_Split loc (CHR '','')
                               in if length coords = 2
                                  then location0
                                    \<lparr>Latitude :=
                                       (case fmt_Sscanf_f env (coords ! 0) of
                                          Some x \<Rightarrow> x | None \<Rightarrow> Latitude location0),
                                     Longitude :=
                                       (case fmt_Sscanf_f env (coords ! 1) of
                                          Some x \<Rightarrow> x | None \<Rightarrow> Longitude location0)\<rparr>
                                  else location0
                           | _ \<Rightarrow> location0);
                        location =
                          location1
                            \<lparr>City := assert_string (data ''city''),
                             Region := assert_string (data ''region''),
                             Country := assert_string (data ''country'')\<rparr>
                    in if City location = [] \<and> Country location = []
                       then ((None, Some (Error ''no location data'')), w')
                       else ((Some location, None), w'))))"

definition getFreeGeoIPLocation :: "('f::zero) env \<Rightarrow> string \<Rightarrow> world \<Rightarrow> 'f lookup" where
  "getFreeGeoIPLocation env ip w =
     (case Get_call env (''https://freegeoip.app/json/'' @ ip) w of
        (GetErr err, w') \<Rightarrow> ((None, Some err), w')
      | (Response status rd, w') \<Rightarrow>
          (case rd of
             Inl err \<Rightarrow> ((None, Some err), w')
           | Inr body \<Rightarrow>
               (case json_Unmarshal_LocationDetails env body of
                  (location, Some err) \<Rightarrow> ((None, Some err), w')
                | (location, None) \<Rightarrow>
                    if City location = [] \<and> Country location = []
                    then ((None, Some (Error ''no location data'')), w')
                    else ((Some location, None), w'))))"

subsection \<open>Fallback over the providers\<close>

text \<open>The loop \<^verbatim>\<open>for _, provider := range locationProviders\<close> of \<^verbatim>\<open>getIPLocation\<close>.\<close>

fun getIPLocation_loop ::
  "(string \<Rightarrow> world \<Rightarrow> 'f lookup) list \<Rightarrow> string \<Rightarrow> world \<Rightarrow> 'f lookup" where
  "getIPLocation_loop [] ip w =
     ((None, Some (Error ''could not fetch location from any provider'')), w)"
| "getIPLocation_loop (provider # providers) ip w =
     (case provider ip w of
        ((location, err), w') \<Rightarrow>
          if err = None \<and> location \<noteq> None then ((location, None), w')
          else getIPLocation_loop providers ip w')"

definition getIPLocation :: "('f::zero) env \<Rightarrow> string \<Rightarrow> world \<Rightarrow> 'f lookup" where
  "getIPLocation env ip w =
     getIPLocation_loop
       [getIPAPILocation env, getIPInfoLocation env, getFreeGeoIPLocation env] ip w"

subsection \<open>Entry point\<close>

definition ValidateDomain ::
  "('f::zero) env \<Rightarrow> string \<Rightarrow> world \<Rightarrow> ('f DomainInfo option \<times> error option) \<times> world" where
  "ValidateDomain env input w =
     (let cleanDomain = cleanDomainInput env input
      in if \<not> isValidDomainFormat cleanDomain
         then ((None, Some (Error ''invalid domain format'')), w)
         else
           (case checkDNSResolution env cleanDomain w of
              (resolves, w1) \<Rightarrow>
                if \<not> resolves then ((None, Some (Error ''cannot resolve domain'')), w1)
                else
                  (case getIPAddress env cleanDomain w1 of
                     ((ipAddress, Some err), w2) \<Rightarrow>
                       ((None, Some (Error (''unable to resolve IP: '' @ message err))), w2)
                   | ((ipAddress, None), w2) \<Rightarrow>
                       (case getIPLocation env ipAddress w2 of
                          ((location, Some err), w3) \<Rightarrow>
                            ((None,
                              Some (Error (''unable to fetch location: '' @ message err))), w3)
                        | ((location, None), w3) \<Rightarrow>
                            ((Some \<lparr>OriginalInput = input, CleanDomain = cleanDomain,
                                    IPAddress = ipAddress, Location = location\<rparr>,
                              None), w3)))))"

section \<open>Notions used in the statements\<close>

text \<open>The test of the fallback loop, \<^verbatim>\<open>err == nil && location != nil\<close>, on a result pair.\<close>

definition accepted :: "'f LocationDetails option \<times> error option \<Rightarrow> bool" where
  "accepted r \<longleftrightarrow> snd r = None \<and> fst r \<noteq> None"

text \<open>
  The two kinds of label that the pattern of \<open>isValidDomainFormat\<close> is made of: a first
  label of 1 to 63 letters, digits and hyphens that neither starts nor ends with a hyphen,
  and a label of two or more letters.
\<close>

definition first_label :: "string \<Rightarrow> bool" where
  "first_label f \<longleftrightarrow>
     f \<noteq> [] \<and> length f \<le> 63 \<and> (\<forall>c\<in>set f. in_class alnum_hyphen c) \<and>
     in_class alnum (hd f) \<and> in_class alnum (last f)"

definition alpha_label :: "string \<Rightarrow> bool" where
  "alpha_label t \<longleftrightarrow> 2 \<le> length t \<and> (\<forall>c\<in>set t. in_class alpha c)"

section \<open>Example environments\<close>

text \<open>
  Concrete networks and library instances on which the theorems below are exercised.
  Numbers are rationals here. The scanner reads plain decimal numerals; the decoders are
  tables over the three response bodies that the examples use.
\<close>

definition is_digit :: "char \<Rightarrow> bool" where
  "is_digit c \<longleftrightarrow> (48::nat) \<le> of_char c \<and> (of_char c :: nat) \<le> 57"

definition digits_value :: "string \<Rightarrow> nat" where
  "digits_value ds = foldl (\<lambda>n c. 10 * n + (of_char c - 48)) 0 ds"

definition decimal_scan :: "string \<Rightarrow> rat option" where
  "decimal_scan s =
     (let whole = takeWhile is_digit s; rest = dropWhile is_digit s
      in case rest of
           [] \<Rightarrow> if whole = [] then None else Some (of_nat (digits_value whole))
         | c # decimals \<Rightarrow>
             if c = CHR ''.'' \<and> list_all is_digit decimals \<and> (whole \<noteq> [] \<or> decimals \<noteq> [])
             then Some (of_nat (digits_value (whole @ decimals)) / 10 ^ length decimals)
             else None)"

definition body_empty :: string where
  \<open>body_empty = ''{}''\<close>

definition body_paris :: string where
  \<open>body_paris = ''{"city":"Paris","country_name":"France"}''\<close>

definition body_ipinfo :: string where
  \<open>body_ipinfo = ''{"city":"Paris","region":"IDF","country":"FR","loc":"48.85,2.35"}''\<close>

definition example_Unmarshal_LocationDetails :: "string \<Rightarrow> rat LocationDetails \<times> error option" where
  "example_Unmarshal_LocationDetails body =
     (if body = body_empty then (zero_LocationDetails, None)
      else if body = body_paris
      then (zero_LocationDetails\<lparr>City := ''Paris'', Country := ''France''\<rparr>, None)
      else if body = body_ipinfo
      then (zero_LocationDetails\<lparr>City := ''Paris'', Region := ''IDF''\<rparr>, None)
      else (zero_LocationDetails, Some (Error ''invalid character'')))"

definition example_Unmarshal_map ::
  "string \<Rightarrow> (string \<Rightarrow> rat iface option) \<times> error option" where
  "example_Unmarshal_map body =
     (if body = body_empty then (Map.empty, None)
      else if body = body_paris
      then (Map.empty(''city'' \<mapsto> IString ''Paris'', ''country_name'' \<mapsto> IString ''France''), None)
      else if body = body_ipinfo
      then (Map.empty(''city'' \<mapsto> IString ''Paris'', ''region'' \<mapsto> IString ''IDF'',
                      ''country'' \<mapsto> IString ''FR'', ''loc'' \<mapsto> IString ''48.85,2.35''), None)
      else (Map.empty, Some (Error ''invalid character'')))"

text \<open>The one address of the examples, 93.184.216.34, as the four bytes of a \<^verbatim>\<open>net.IP\<close>.\<close>

definition example_ip :: string where
  "example_ip = map char_of [93, 184, 216, 34 :: nat]"

definition example_IP_String :: "string \<Rightarrow> string" where
  "example_IP_String ip = (if ip = example_ip then ''93.184.216.34'' else ''?'')"

definition example_env ::
  "(world \<Rightarrow> string \<Rightarrow> string list \<times> error option) \<Rightarrow> (world \<Rightarrow> string \<Rightarrow> http_result) \<Rightarrow> rat env"
  where
  "example_env dns http =
     \<lparr>net_LookupIP = dns,
      net_IP_String = example_IP_String,
      http_Get = http,
      json_Unmarshal_LocationDetails = example_Unmarshal_LocationDetails,
      json_Unmarshal_map = example_Unmarshal_map,
      fmt_Sscanf_f = decimal_scan,
      url_Parse_Hostname = (\<lambda>s. None)\<rparr>"

text \<open>A resolver that knows every name, and one that answers with no address and no error.\<close>

definition dns_ok :: "world \<Rightarrow> string \<Rightarrow> string list \<times> error option" where
  "dns_ok w host = ([example_ip], None)"

definition dns_empty :: "world \<Rightarrow> string \<Rightarrow> string list \<times> error option" where
  "dns_empty w host = ([], None)"

text \<open>
  Networks: only the third provider has data; no provider can be reached; every provider
  answers with data; every provider answers with data under status 500; only the second
  provider answers.
\<close>

definition http_third_only :: "world \<Rightarrow> string \<Rightarrow> http_result" where
  "http_third_only w url =
     (if url = ''https://freegeoip.app/json/93.184.216.34''
      then Response 200 (Inr body_paris) else Response 200 (Inr body_empty))"

definition http_down :: "world \<Rightarrow> string \<Rightarrow> http_result" where
  "http_down w url = GetErr (Error ''connection refused'')"

definition http_all :: "world \<Rightarrow> string \<Rightarrow> http_result" where
  "http_all w url = Response 200 (Inr body_paris)"

definition http_status_500 :: "world \<Rightarrow> string \<Rightarrow> http_result" where
  "http_status_500 w url = Response 500 (Inr body_paris)"

definition http_ipinfo_only :: "world \<Rightarrow> string \<Rightarrow> http_result" where
  "http_ipinfo_only w url =
     (if url = ''https://ipinfo.io/93.184.216.34/json''
      then Response 200 (Inr body_ipinfo) else GetErr (Error ''connection refused''))"

text \<open>
  A resolver that fails; a network whose responses break off while the body is read, one
  that answers with something that is not JSON, and one whose answers hold no data.
\<close>

definition dns_fail :: "world \<Rightarrow> string \<Rightarrow> string list \<times> error option" where
  "dns_fail w host = ([], Some (Error ''no such host''))"

definition http_read_error :: "world \<Rightarrow> string \<Rightarrow> http_result" where
  "http_read_error w url = Response 200 (Inl (Error ''unexpected EOF''))"

definition http_garbage :: "world \<Rightarrow> string \<Rightarrow> http_result" where
  "http_garbage w url = Response 200 (Inr ''<html>'')"

definition http_no_data :: "world \<Rightarrow> string \<Rightarrow> http_result" where
  "http_no_data w url = Response 200 (Inr body_empty)"

section \<open>The matcher decides the language\<close>

lemma nullable_lang: "nullable r \<longleftrightarrow> [] \<in> lang r"
  by (induction r) (auto simp: conc_def intro: star.star_empty)

lemma conc_cons_iff:
  "c # w \<in> conc A B \<longleftrightarrow>
     ([] \<in> A \<and> c # w \<in> B) \<or> (\<exists>u v. w = u @ v \<and> c # u \<in> A \<and> v \<in> B)"
  unfolding conc_def by (auto simp: Cons_eq_append_conv) 

lemma star_cons_split:
  assumes "x \<in> star A" and "x = c # w"
  shows "\<exists>u v. w = u @ v \<and> c # u \<in> A \<and> v \<in> star A"
  using assms
proof (induction arbitrary: w rule: star.induct)
  case star_empty
  then show ?case by simp
next
  case (star_more u v)
  show ?case
  proof (cases u)
    case Nil
    with star_more show ?thesis by simp
  next
    case (Cons d u')
    with star_more.prems have "d = c" and "w = u' @ v" by simp_all
    with Cons star_more.hyps show ?thesis by blast
  qed
qed

lemma star_cons_iff:
  "c # w \<in> star A \<longleftrightarrow> (\<exists>u v. w = u @ v \<and> c # u \<in> A \<and> v \<in> star A)"
proof
  assume "c # w \<in> star A"
  then show "\<exists>u v. w = u @ v \<and> c # u \<in> A \<and> v \<in> star A"
    by (rule star_cons_split) simp
next
  assume "\<exists>u v. w = u @ v \<and> c # u \<in> A \<and> v \<in> star A"
  then obtain u v where "w = u @ v" "c # u \<in> A" "v \<in> star A" by blast
  then show "c # w \<in> star A"
    using star.star_more [of "c # u" A v] by simp
qed

lemma deriv_lang: "w \<in> lang (deriv c r) \<longleftrightarrow> c # w \<in> lang r"
proof (induction r arbitrary: w)
  case (Seq r s)
  then show ?case
    by (auto simp: conc_cons_iff nullable_lang) (auto simp: conc_def)
next
  case (Star r)
  then show ?case
    by (auto simp: star_cons_iff conc_def)
qed auto

lemma matches_lang: "matches r w \<longleftrightarrow> w \<in> lang r"
  by (induction w arbitrary: r) (simp_all add: nullable_lang deriv_lang)


lemma lang_Opt: "lang (Opt r) = insert [] (lang r)"
  by (simp add: Opt_def)

lemma conc_Class_iff:
  "w \<in> conc (lang (Class cs)) B \<longleftrightarrow> (\<exists>c v. w = c # v \<and> in_class cs c \<and> v \<in> B)"
proof
  assume "w \<in> conc (lang (Class cs)) B"
  then obtain u v where "w = u @ v" "u \<in> lang (Class cs)" "v \<in> B"
    unfolding conc_def by blast
  then show "\<exists>c v. w = c # v \<and> in_class cs c \<and> v \<in> B" by auto
next
  assume "\<exists>c v. w = c # v \<and> in_class cs c \<and> v \<in> B"
  then obtain c v where "w = [c] @ v" "in_class cs c" "v \<in> B" by auto
  moreover from this have "[c] \<in> lang (Class cs)" by simp
  ultimately show "w \<in> conc (lang (Class cs)) B"
    unfolding conc_def by blast
qed

lemma lang_rep_exact_Class_iff:
  "w \<in> lang (rep_exact n (Class cs)) \<longleftrightarrow> length w = n \<and> (\<forall>c\<in>set w. in_class cs c)"
proof (induction n arbitrary: w)
  case 0
  show ?case by auto
next
  case (Suc n)
  show ?case
    by (cases w) (auto simp: conc_Class_iff Suc.IH simp del: lang.simps(4))
qed

lemma lang_rep_upto_Class_iff:
  "w \<in> lang (rep_upto n (Class cs)) \<longleftrightarrow> length w \<le> n \<and> (\<forall>c\<in>set w. in_class cs c)"
proof (induction n arbitrary: w)
  case 0
  show ?case by auto
next
  case (Suc n)
  show ?case
    by (cases w) (auto simp: lang_Opt conc_Class_iff Suc.IH simp del: lang.simps(4))
qed

lemma lang_Star_Class:
  "lang (Star (Class cs)) = {w. \<forall>c\<in>set w. in_class cs c}"
proof (rule set_eqI, rule iffI)
  fix w assume "w \<in> lang (Star (Class cs))"
  then have "w \<in> star (lang (Class cs))" by simp
  then show "w \<in> {w. \<forall>c\<in>set w. in_class cs c}"
    by (induction rule: star.induct) auto
next
  fix w assume "w \<in> {w. \<forall>c\<in>set w. in_class cs c}"
  then have "w \<in> star (lang (Class cs))"
  proof (induction w)
    case Nil
    show ?case by (rule star.star_empty)
  next
    case (Cons c w)
    then have "[c] \<in> lang (Class cs)" and "w \<in> star (lang (Class cs))" by simp_all
    then have "[c] @ w \<in> star (lang (Class cs))" by (rule star.star_more)
    then show ?case by simp
  qed
  then show "w \<in> lang (Star (Class cs))" by simp
qed

lemma lang_rep_atleast_Class:
  "lang (rep_atleast n (Class cs)) = {w. n \<le> length w \<and> (\<forall>c\<in>set w. in_class cs c)}"
proof (rule set_eqI, rule iffI)
  fix w assume "w \<in> lang (rep_atleast n (Class cs))"
  then show "w \<in> {w. n \<le> length w \<and> (\<forall>c\<in>set w. in_class cs c)}"
    unfolding rep_atleast_def lang.simps(5) lang_Star_Class conc_def
    by (auto simp: lang_rep_exact_Class_iff)
next
  fix w assume "w \<in> {w. n \<le> length w \<and> (\<forall>c\<in>set w. in_class cs c)}"
  then have len: "n \<le> length w" and cls: "\<forall>c\<in>set w. in_class cs c" by simp_all
  have "take n w \<in> lang (rep_exact n (Class cs))"
    unfolding lang_rep_exact_Class_iff using len cls by (auto dest: in_set_takeD)
  moreover have "drop n w \<in> lang (Star (Class cs))"
    unfolding lang_Star_Class using cls by (auto dest: in_set_dropD)
  ultimately have "take n w @ drop n w \<in> conc (lang (rep_exact n (Class cs))) (lang (Star (Class cs)))"
    unfolding conc_def by blast
  then show "w \<in> lang (rep_atleast n (Class cs))"
    by (simp add: rep_atleast_def)
qed

lemma star_concat: "w \<in> star A \<longleftrightarrow> (\<exists>ws. w = concat ws \<and> set ws \<subseteq> A)"
proof
  assume "w \<in> star A"
  then show "\<exists>ws. w = concat ws \<and> set ws \<subseteq> A"
  proof (induction rule: star.induct)
    case star_empty
    have "[] = concat [] \<and> set ([] :: string list) \<subseteq> A" by simp
    then show ?case by blast
  next
    case (star_more u v)
    then obtain ws where "v = concat ws" "set ws \<subseteq> A" by blast
    with star_more.hyps(1) have "u @ v = concat (u # ws) \<and> set (u # ws) \<subseteq> A" by simp
    then show ?case by blast
  qed
next
  assume "\<exists>ws. w = concat ws \<and> set ws \<subseteq> A"
  then obtain ws where "w = concat ws" "set ws \<subseteq> A" by blast
  then show "w \<in> star A"
    by (induction ws arbitrary: w) (auto intro: star.intros)
qed

lemma lang_Plus:
  "lang (Plus r) = {concat ws | ws. ws \<noteq> [] \<and> set ws \<subseteq> lang r}"
proof (rule set_eqI, rule iffI)
  fix w assume "w \<in> lang (Plus r)"
  then obtain u v where "w = u @ v" "u \<in> lang r" "v \<in> star (lang r)"
    by (auto simp: Plus_def conc_def)
  then obtain ws where "v = concat ws" "set ws \<subseteq> lang r"
    by (auto simp: star_concat)
  with \<open>w = u @ v\<close> \<open>u \<in> lang r\<close>
  have "w = concat (u # ws) \<and> u # ws \<noteq> [] \<and> set (u # ws) \<subseteq> lang r" by simp
  then show "w \<in> {concat ws | ws. ws \<noteq> [] \<and> set ws \<subseteq> lang r}" by blast
next
  fix w assume "w \<in> {concat ws | ws. ws \<noteq> [] \<and> set ws \<subseteq> lang r}"
  then obtain ws where ws: "w = concat ws" "ws \<noteq> []" "set ws \<subseteq> lang r" by blast
  then obtain u us where "ws = u # us" by (cases ws) auto
  with ws have "u \<in> lang r" and "concat us \<in> star (lang r)" and "w = u @ concat us"
    by (auto simp: star_concat)
  then show "w \<in> lang (Plus r)"
    by (auto simp: Plus_def conc_def)
qed


lemma alnum_is_alnum_hyphen: "in_class alnum c \<Longrightarrow> in_class alnum_hyphen c"
  by (auto simp: in_class_def alnum_def alnum_hyphen_def)

lemma lang_first_tail:
  "m \<in> lang (Opt (Seq (rep_upto 61 (Class alnum_hyphen)) (Class alnum))) \<longleftrightarrow>
     m = [] \<or> (\<exists>x b. m = x @ [b] \<and> length x \<le> 61 \<and>
                  (\<forall>c\<in>set x. in_class alnum_hyphen c) \<and> in_class alnum b)"
proof -
  have "m \<in> conc (lang (rep_upto 61 (Class alnum_hyphen))) (lang (Class alnum)) \<longleftrightarrow>
      (\<exists>x b. m = x @ [b] \<and> length x \<le> 61 \<and>
                  (\<forall>c\<in>set x. in_class alnum_hyphen c) \<and> in_class alnum b)"
    unfolding conc_def by (auto simp: lang_rep_upto_Class_iff)
  then show ?thesis
    by (simp add: lang_Opt)
qed

lemma first_label_split:
  "first_label f \<longleftrightarrow>
     (\<exists>a m. f = a # m \<and> in_class alnum a \<and>
        (m = [] \<or> (\<exists>x b. m = x @ [b] \<and> length x \<le> 61 \<and>
                  (\<forall>c\<in>set x. in_class alnum_hyphen c) \<and> in_class alnum b)))"
proof
  assume fl: "first_label f"
  then obtain a m where f: "f = a # m" by (cases f) (auto simp: first_label_def)
  show "\<exists>a m. f = a # m \<and> in_class alnum a \<and>
        (m = [] \<or> (\<exists>x b. m = x @ [b] \<and> length x \<le> 61 \<and>
                  (\<forall>c\<in>set x. in_class alnum_hyphen c) \<and> in_class alnum b))"
  proof (cases "m = []")
    case True
    with fl f show ?thesis by (auto simp: first_label_def)
  next
    case False
    then have m: "m = butlast m @ [last m]" by simp
    have "length (butlast m) \<le> 61" using fl f by (auto simp: first_label_def)
    moreover have "\<forall>c\<in>set (butlast m). in_class alnum_hyphen c"
      using fl f by (auto simp: first_label_def dest: in_set_butlastD)
    moreover have "in_class alnum (last m)"
      using fl f False by (simp add: first_label_def)
    moreover have "in_class alnum a"
      using fl f by (simp add: first_label_def)
    ultimately show ?thesis using f m by blast
  qed
next
  assume "\<exists>a m. f = a # m \<and> in_class alnum a \<and>
        (m = [] \<or> (\<exists>x b. m = x @ [b] \<and> length x \<le> 61 \<and>
                  (\<forall>c\<in>set x. in_class alnum_hyphen c) \<and> in_class alnum b))"
  then show "first_label f"
    by (auto simp: first_label_def alnum_is_alnum_hyphen)
qed

lemma lang_dot_label:
  "w \<in> lang (Seq (Lit (CHR ''.'')) (rep_atleast 2 (Class alpha))) \<longleftrightarrow>
     (\<exists>t. w = CHR ''.'' # t \<and> alpha_label t)"
  unfolding lang.simps(5) conc_def alpha_label_def
  by (auto simp: lang_rep_atleast_Class)

lemma lang_dot_labels:
  "p \<in> lang (Plus (Seq (Lit (CHR ''.'')) (rep_atleast 2 (Class alpha)))) \<longleftrightarrow>
     (\<exists>tls. tls \<noteq> [] \<and> p = concat (map (\<lambda>t. CHR ''.'' # t) tls) \<and>
            (\<forall>t\<in>set tls. alpha_label t))"
proof
  assume "p \<in> lang (Plus (Seq (Lit (CHR ''.'')) (rep_atleast 2 (Class alpha))))"
  then obtain ws where ws: "p = concat ws" "ws \<noteq> []"
      "set ws \<subseteq> lang (Seq (Lit (CHR ''.'')) (rep_atleast 2 (Class alpha)))"
    unfolding lang_Plus by blast
  have each: "\<forall>w\<in>set ws. w = CHR ''.'' # tl w \<and> alpha_label (tl w)"
  proof
    fix w assume "w \<in> set ws"
    with ws(3) have "w \<in> lang (Seq (Lit (CHR ''.'')) (rep_atleast 2 (Class alpha)))"
      by blast
    then obtain t where "w = CHR ''.'' # t" "alpha_label t"
      unfolding lang_dot_label by blast
    then show "w = CHR ''.'' # tl w \<and> alpha_label (tl w)" by simp
  qed
  then have "map (\<lambda>t. CHR ''.'' # t) (map tl ws) = ws"
    by (induction ws) auto
  with ws each have "map tl ws \<noteq> [] \<and> p = concat (map (\<lambda>t. CHR ''.'' # t) (map tl ws)) \<and>
            (\<forall>t\<in>set (map tl ws). alpha_label t)"
    by simp
  then show "\<exists>tls. tls \<noteq> [] \<and> p = concat (map (\<lambda>t. CHR ''.'' # t) tls) \<and>
            (\<forall>t\<in>set tls. alpha_label t)" by blast
next
  assume "\<exists>tls. tls \<noteq> [] \<and> p = concat (map (\<lambda>t. CHR ''.'' # t) tls) \<and>
            (\<forall>t\<in>set tls. alpha_label t)"
  then obtain tls where tls: "tls \<noteq> []" "p = concat (map (\<lambda>t. CHR ''.'' # t) tls)"
      "\<forall>t\<in>set tls. alpha_label t" by blast
  then have "set (map (\<lambda>t. CHR ''.'' # t) tls) \<subseteq> lang (Seq (Lit (CHR ''.'')) (rep_atleast 2 (Class alpha)))"
    using lang_dot_label by auto
  with tls show "p \<in> lang (Plus (Seq (Lit (CHR ''.'')) (rep_atleast 2 (Class alpha))))"
    unfolding lang_Plus by blast
qed

lemma lang_domainRegex:
  "d \<in> lang domainRegex \<longleftrightarrow>
     (\<exists>first tls. d = first @ concat (map (\<lambda>t. CHR ''.'' # t) tls) \<and>
        first_label first \<and> tls \<noteq> [] \<and> (\<forall>t\<in>set tls. alpha_label t))"
proof -
  let ?X = "Opt (Seq (rep_upto 61 (Class alnum_hyphen)) (Class alnum))"
  let ?P = "Plus (Seq (Lit (CHR ''.'')) (rep_atleast 2 (Class alpha)))"
  have "d \<in> lang domainRegex \<longleftrightarrow>
      (\<exists>a m p. d = (a # m) @ p \<and> in_class alnum a \<and> m \<in> lang ?X \<and> p \<in> lang ?P)"
    unfolding domainRegex_def lang.simps(5) conc_Class_iff
    unfolding conc_def by auto
  also have "\<dots> \<longleftrightarrow> (\<exists>first p. d = first @ p \<and> first_label first \<and> p \<in> lang ?P)"
    unfolding first_label_split lang_first_tail by blast
  also have "\<dots> \<longleftrightarrow> (\<exists>first tls. d = first @ concat (map (\<lambda>t. CHR ''.'' # t) tls) \<and>
        first_label first \<and> tls \<noteq> [] \<and> (\<forall>t\<in>set tls. alpha_label t))"
    unfolding lang_dot_labels by blast
  finally show ?thesis .
qed

section \<open>The format check\<close>

text \<open>
  Claim C3, as amended. \<open>isValidDomainFormat\<close> returns true exactly for the strings made of a
  first label (1 to 63 letters, digits and hyphens, not starting and not ending with a
  hyphen) followed by one or more groups of a dot and a label of at least two letters.
  Only the first label may hold digits or hyphens or is bounded in length; every later
  label is alphabetic.
\<close>

theorem isValidDomainFormat_shape:
  "isValidDomainFormat d \<longleftrightarrow>
     (\<exists>first tls. d = first @ concat (map (\<lambda>t. CHR ''.'' # t) tls) \<and>
        first_label first \<and> tls \<noteq> [] \<and> (\<forall>t\<in>set tls. alpha_label t))"
  unfolding isValidDomainFormat_def matches_lang by (rule lang_domainRegex)

text \<open>The amended claim at \<open>web1.example.com\<close>: first label \<open>web1\<close>, then \<open>example\<close> and \<open>com\<close>.\<close>

theorem isValidDomainFormat_shape_witness:
  "first_label ''web1'' \<and> alpha_label ''example'' \<and> alpha_label ''com'' \<and>
   isValidDomainFormat ''web1.example.com''"
proof -
  have a: "''web1.example.com'' =
      ''web1'' @ concat (map (\<lambda>t. CHR ''.'' # t) [''example'', ''com''])"
    by simp
  have b: "first_label ''web1''" by code_simp
  have c: "\<forall>t\<in>set [''example'', ''com'']. alpha_label t" by code_simp
  have d: "[''example'', ''com''] \<noteq> []" by simp
  from a b c d have "\<exists>first tls.
        ''web1.example.com'' = first @ concat (map (\<lambda>t. CHR ''.'' # t) tls) \<and>
        first_label first \<and> tls \<noteq> [] \<and> (\<forall>t\<in>set tls. alpha_label t)"
    by (intro exI [of _ "''web1''"] exI [of _ "[''example'', ''com'']"] conjI)
  then have "isValidDomainFormat ''web1.example.com''"
    by (rule iffD2 [OF isValidDomainFormat_shape])
  with b c show ?thesis by simp
qed

text \<open>
  Claim C3 as stated fails: the multi-label domain \<open>my-host.sub1.example.com\<close>, whose
  second label holds a digit, is rejected.
\<close>

theorem isValidDomainFormat_rejects_digit_in_later_label:
  "\<not> isValidDomainFormat ''my-host.sub1.example.com''"
  by code_simp

section \<open>The fallback loop\<close>

text \<open>Every adapter issues exactly one request, to its own endpoint.\<close>

lemma snd_getIPAPILocation:
  "snd (getIPAPILocation env ip w) = w @ [HTTPGet (''https://ipapi.co/'' @ ip @ ''/json/'')]"
  by (simp add: getIPAPILocation_def Get_call_def
      split: http_result.splits sum.splits prod.splits option.splits)

lemma snd_getIPInfoLocation:
  "snd (getIPInfoLocation env ip w) = w @ [HTTPGet (''https://ipinfo.io/'' @ ip @ ''/json'')]"
  by (simp add: getIPInfoLocation_def Get_call_def Let_def
      split: http_result.splits sum.splits prod.splits option.splits)

lemma snd_getFreeGeoIPLocation:
  "snd (getFreeGeoIPLocation env ip w) = w @ [HTTPGet (''https://freegeoip.app/json/'' @ ip)]"
  by (simp add: getFreeGeoIPLocation_def Get_call_def
      split: http_result.splits sum.splits prod.splits option.splits)

lemma getIPLocation_loop_step:
  "getIPLocation_loop (p # ps) ip w =
     (if accepted (fst (p ip w)) then p ip w else getIPLocation_loop ps ip (snd (p ip w)))"
  by (auto simp: accepted_def split: prod.splits)

lemma getIPLocation_unfold:
  "getIPLocation env ip w =
     (let a = getIPAPILocation env ip w in
      if accepted (fst a) then a
      else let b = getIPInfoLocation env ip (snd a) in
        if accepted (fst b) then b
        else let c = getFreeGeoIPLocation env ip (snd b) in
          if accepted (fst c) then c
          else ((None, Some (Error ''could not fetch location from any provider'')), snd c))"
  unfolding getIPLocation_def getIPLocation_loop_step Let_def by simp

text \<open>
  Claim C1. The adapters are invoked in the fixed order ipapi.co, ipinfo.io, freegeoip.app.
  The result of \<open>getIPLocation\<close> is the result of the first adapter whose result is accepted,
  unchanged, and the log of requests ends with the request of that adapter: no later adapter
  is invoked.
\<close>

theorem getIPLocation_first_success:
  "let a = getIPAPILocation env ip w;
       b = getIPInfoLocation env ip (snd a);
       c = getFreeGeoIPLocation env ip (snd b)
   in (accepted (fst a) \<longrightarrow>
         getIPLocation env ip w = a \<and>
         snd a = w @ [HTTPGet (''https://ipapi.co/'' @ ip @ ''/json/'')]) \<and>
      (\<not> accepted (fst a) \<and> accepted (fst b) \<longrightarrow>
         getIPLocation env ip w = b \<and>
         snd b = w @ [HTTPGet (''https://ipapi.co/'' @ ip @ ''/json/''),
                      HTTPGet (''https://ipinfo.io/'' @ ip @ ''/json'')]) \<and>
      (\<not> accepted (fst a) \<and> \<not> accepted (fst b) \<and> accepted (fst c) \<longrightarrow>
         getIPLocation env ip w = c \<and>
         snd c = w @ [HTTPGet (''https://ipapi.co/'' @ ip @ ''/json/''),
                      HTTPGet (''https://ipinfo.io/'' @ ip @ ''/json''),
                      HTTPGet (''https://freegeoip.app/json/'' @ ip)])"
  unfolding Let_def
  by (simp add: getIPLocation_unfold Let_def snd_getIPAPILocation snd_getIPInfoLocation
      snd_getFreeGeoIPLocation)


text \<open>
  The claim's example: the first two adapters find no city and no country, the third answers
  Paris, France; exactly that record is returned, after three requests.
\<close>

theorem getIPLocation_first_success_witness:
  "\<not> accepted (fst (getIPAPILocation (example_env dns_ok http_third_only) ''93.184.216.34'' [])) \<and>
   \<not> accepted (fst (getIPInfoLocation (example_env dns_ok http_third_only) ''93.184.216.34''
       [HTTPGet ''https://ipapi.co/93.184.216.34/json/''])) \<and>
   accepted (fst (getFreeGeoIPLocation (example_env dns_ok http_third_only) ''93.184.216.34''
       [HTTPGet ''https://ipapi.co/93.184.216.34/json/'',
        HTTPGet ''https://ipinfo.io/93.184.216.34/json''])) \<and>
   getIPLocation (example_env dns_ok http_third_only) ''93.184.216.34'' [] =
     ((Some \<lparr>IP = [], City = ''Paris'', Region = [], Country = ''France'',
              Latitude = 0, Longitude = 0\<rparr>, None),
      [HTTPGet ''https://ipapi.co/93.184.216.34/json/'',
       HTTPGet ''https://ipinfo.io/93.184.216.34/json'',
       HTTPGet ''https://freegeoip.app/json/93.184.216.34''])"
proof -
  let ?E = "example_env dns_ok http_third_only"
  have a: "getIPAPILocation ?E ''93.184.216.34'' [] =
      ((None, Some (Error ''no location data'')), [HTTPGet ''https://ipapi.co/93.184.216.34/json/''])"
    by code_simp
  have b: "getIPInfoLocation ?E ''93.184.216.34'' [HTTPGet ''https://ipapi.co/93.184.216.34/json/''] =
      ((None, Some (Error ''no location data'')),
       [HTTPGet ''https://ipapi.co/93.184.216.34/json/'',
        HTTPGet ''https://ipinfo.io/93.184.216.34/json''])"
    by code_simp
  have c: "getFreeGeoIPLocation ?E ''93.184.216.34''
       [HTTPGet ''https://ipapi.co/93.184.216.34/json/'',
        HTTPGet ''https://ipinfo.io/93.184.216.34/json''] =
      ((Some \<lparr>IP = [], City = ''Paris'', Region = [], Country = ''France'',
              Latitude = 0, Longitude = 0\<rparr>, None),
       [HTTPGet ''https://ipapi.co/93.184.216.34/json/'',
        HTTPGet ''https://ipinfo.io/93.184.216.34/json'',
        HTTPGet ''https://freegeoip.app/json/93.184.216.34''])"
    by code_simp
  show ?thesis
    using getIPLocation_first_success [of ?E "''93.184.216.34''" "[]"]
    unfolding Let_def a b c fst_conv snd_conv
    by (simp add: accepted_def)
qed

section \<open>When no provider has data\<close>

lemma getIPLocation_all_failed:
  assumes "\<not> accepted (fst (getIPAPILocation env ip w))"
    and "\<not> accepted (fst (getIPInfoLocation env ip (snd (getIPAPILocation env ip w))))"
    and "\<not> accepted (fst (getFreeGeoIPLocation env ip
            (snd (getIPInfoLocation env ip (snd (getIPAPILocation env ip w))))))"
  shows "fst (getIPLocation env ip w) =
           (None, Some (Error ''could not fetch location from any provider''))"
  using assms by (simp add: getIPLocation_unfold Let_def)

lemma getIPLocation_result:
  "(\<exists>loc. fst (getIPLocation env ip w) = (Some loc, None)) \<or>
   fst (getIPLocation env ip w) =
     (None, Some (Error ''could not fetch location from any provider''))"
proof -
  have acc: "\<And>r :: 'a lookup. accepted (fst r) \<Longrightarrow> \<exists>loc. fst r = (Some loc, None)"
    by (auto simp: accepted_def prod_eq_iff)
  show ?thesis
    unfolding getIPLocation_unfold Let_def
    by (auto dest: acc)
qed

lemma ValidateDomain_location_error:
  assumes "isValidDomainFormat (cleanDomainInput env input)"
    and "checkDNSResolution env (cleanDomainInput env input) w = (True, w1)"
    and "getIPAddress env (cleanDomainInput env input) w1 = ((ip, None), w2)"
    and "fst (getIPLocation env ip w2) = (location, Some e)"
  shows "fst (ValidateDomain env input w) =
           (None, Some (Error (''unable to fetch location: '' @ message e)))"
  using assms
  by (cases "getIPLocation env ip w2") (simp add: ValidateDomain_def Let_def)

lemma example_clean: "cleanDomainInput (example_env dns http) ''example.com'' = ''example.com''"
  by code_simp

lemma example_valid: "isValidDomainFormat ''example.com''"
  by code_simp

text \<open>
  Claim C2. When none of the three adapters returns an accepted result, \<open>getIPLocation\<close>
  fails with the one error ``could not fetch location from any provider'', and
  \<open>ValidateDomain\<close>, having passed the format check and both lookups, returns no record and
  the error ``unable to fetch location: could not fetch location from any provider''.
\<close>

theorem all_providers_failed:
  "(\<not> accepted (fst (getIPAPILocation env ip w)) \<and>
    \<not> accepted (fst (getIPInfoLocation env ip (snd (getIPAPILocation env ip w)))) \<and>
    \<not> accepted (fst (getFreeGeoIPLocation env ip
            (snd (getIPInfoLocation env ip (snd (getIPAPILocation env ip w)))))) \<longrightarrow>
    fst (getIPLocation env ip w) =
      (None, Some (Error ''could not fetch location from any provider''))) \<and>
   (isValidDomainFormat (cleanDomainInput env input) \<and>
    checkDNSResolution env (cleanDomainInput env input) w0 = (True, w1) \<and>
    getIPAddress env (cleanDomainInput env input) w1 = ((ip, None), w) \<and>
    \<not> accepted (fst (getIPAPILocation env ip w)) \<and>
    \<not> accepted (fst (getIPInfoLocation env ip (snd (getIPAPILocation env ip w)))) \<and>
    \<not> accepted (fst (getFreeGeoIPLocation env ip
            (snd (getIPInfoLocation env ip (snd (getIPAPILocation env ip w)))))) \<longrightarrow>
    fst (ValidateDomain env input w0) =
      (None, Some (Error
         ''unable to fetch location: could not fetch location from any provider'')))"
proof (intro conjI impI)
  assume "\<not> accepted (fst (getIPAPILocation env ip w)) \<and>
    \<not> accepted (fst (getIPInfoLocation env ip (snd (getIPAPILocation env ip w)))) \<and>
    \<not> accepted (fst (getFreeGeoIPLocation env ip
            (snd (getIPInfoLocation env ip (snd (getIPAPILocation env ip w))))))"
  then show "fst (getIPLocation env ip w) =
      (None, Some (Error ''could not fetch location from any provider''))"
    by (simp add: getIPLocation_all_failed)
next
  assume h: "isValidDomainFormat (cleanDomainInput env input) \<and>
    checkDNSResolution env (cleanDomainInput env input) w0 = (True, w1) \<and>
    getIPAddress env (cleanDomainInput env input) w1 = ((ip, None), w) \<and>
    \<not> accepted (fst (getIPAPILocation env ip w)) \<and>
    \<not> accepted (fst (getIPInfoLocation env ip (snd (getIPAPILocation env ip w)))) \<and>
    \<not> accepted (fst (getFreeGeoIPLocation env ip
            (snd (getIPInfoLocation env ip (snd (getIPAPILocation env ip w))))))"
  then have "fst (getIPLocation env ip w) =
      (None, Some (Error ''could not fetch location from any provider''))"
    by (simp add: getIPLocation_all_failed)
  moreover from h have "isValidDomainFormat (cleanDomainInput env input)"
    and "checkDNSResolution env (cleanDomainInput env input) w0 = (True, w1)"
    and "getIPAddress env (cleanDomainInput env input) w1 = ((ip, None), w)"
    by blast+
  ultimately have "fst (ValidateDomain env input w0) =
      (None, Some (Error (''unable to fetch location: '' @
         message (Error ''could not fetch location from any provider''))))"
    by (rule ValidateDomain_location_error [rotated 3])
  then show "fst (ValidateDomain env input w0) =
      (None, Some (Error
         ''unable to fetch location: could not fetch location from any provider''))"
    by simp
qed

text \<open>The claim on a network where no provider can be reached.\<close>

theorem all_providers_failed_witness:
  "isValidDomainFormat (cleanDomainInput (example_env dns_ok http_down) ''example.com'') \<and>
   checkDNSResolution (example_env dns_ok http_down) ''example.com'' [] =
     (True, [DNSLookup ''example.com'']) \<and>
   getIPAddress (example_env dns_ok http_down) ''example.com'' [DNSLookup ''example.com''] =
     ((''93.184.216.34'', None), [DNSLookup ''example.com'', DNSLookup ''example.com'']) \<and>
   fst (getIPLocation (example_env dns_ok http_down) ''93.184.216.34''
          [DNSLookup ''example.com'', DNSLookup ''example.com'']) =
     (None, Some (Error ''could not fetch location from any provider'')) \<and>
   fst (ValidateDomain (example_env dns_ok http_down) ''example.com'' []) =
     (None, Some (Error
        ''unable to fetch location: could not fetch location from any provider''))"
proof -
  let ?E = "example_env dns_ok http_down"
  let ?w = "[DNSLookup ''example.com'', DNSLookup ''example.com'']"
  have v: "isValidDomainFormat (cleanDomainInput ?E ''example.com'')"
    by (simp add: example_clean example_valid)
  have d: "checkDNSResolution ?E (cleanDomainInput ?E ''example.com'') [] =
      (True, [DNSLookup ''example.com''])"
    unfolding example_clean by code_simp
  have g: "getIPAddress ?E (cleanDomainInput ?E ''example.com'') [DNSLookup ''example.com''] =
      ((''93.184.216.34'', None), ?w)"
    unfolding example_clean by code_simp
  have a: "\<not> accepted (fst (getIPAPILocation ?E ''93.184.216.34'' ?w))"
    by code_simp
  have b: "\<not> accepted (fst (getIPInfoLocation ?E ''93.184.216.34''
              (snd (getIPAPILocation ?E ''93.184.216.34'' ?w))))"
    by code_simp
  have c: "\<not> accepted (fst (getFreeGeoIPLocation ?E ''93.184.216.34''
              (snd (getIPInfoLocation ?E ''93.184.216.34''
                 (snd (getIPAPILocation ?E ''93.184.216.34'' ?w))))))"
    by code_simp
  from v d g a b c show ?thesis
    using all_providers_failed [of ?E "''93.184.216.34''" ?w "''example.com''" "[]"
        "[DNSLookup ''example.com'']"]
    unfolding example_clean by simp
qed

section \<open>The record that ValidateDomain returns\<close>

lemma getIPLocation_no_error_has_location:
  "getIPLocation env ip w = ((location, None), w') \<Longrightarrow> location \<noteq> None"
  using getIPLocation_result [of env ip w] by auto

text \<open>
  Claim C10. \<open>getIPLocation\<close> returns either a location and no error, or no location and an
  error, never neither; so a record returned by \<open>ValidateDomain\<close> comes with no error and
  its \<open>Location\<close> is not nil.
\<close>

theorem getIPLocation_never_nil_nil:
  "((\<exists>loc. fst (getIPLocation env ip w) = (Some loc, None)) \<or>
    (\<exists>e. fst (getIPLocation env ip w) = (None, Some e))) \<and>
   (\<forall>info e. fst (ValidateDomain env input w) = (Some info, e) \<longrightarrow>
      e = None \<and> Location info \<noteq> None)"
proof
  show "(\<exists>loc. fst (getIPLocation env ip w) = (Some loc, None)) \<or>
    (\<exists>e. fst (getIPLocation env ip w) = (None, Some e))"
    using getIPLocation_result [of env ip w] by blast
next
  show "\<forall>info e. fst (ValidateDomain env input w) = (Some info, e) \<longrightarrow>
      e = None \<and> Location info \<noteq> None"
    by (auto simp: ValidateDomain_def Let_def
        split: if_splits prod.splits option.splits
        dest: getIPLocation_no_error_has_location)
qed

text \<open>The claim on a run that succeeds.\<close>

theorem getIPLocation_never_nil_nil_witness:
  "fst (ValidateDomain (example_env dns_ok http_all) ''example.com'' []) =
     (Some \<lparr>OriginalInput = ''example.com'', CleanDomain = ''example.com'',
            IPAddress = ''93.184.216.34'',
            Location = Some \<lparr>IP = [], City = ''Paris'', Region = [], Country = ''France'',
                              Latitude = 0, Longitude = 0\<rparr>\<rparr>, None) \<and>
   Location \<lparr>OriginalInput = ''example.com'', CleanDomain = ''example.com'',
            IPAddress = ''93.184.216.34'',
            Location = Some \<lparr>IP = [], City = ''Paris'', Region = [], Country = ''France'',
                              Latitude = 0, Longitude = (0::rat)\<rparr>\<rparr> \<noteq> None"
proof -
  let ?E = "example_env dns_ok http_all"
  have run: "fst (ValidateDomain ?E ''example.com'' []) =
     (Some \<lparr>OriginalInput = ''example.com'', CleanDomain = ''example.com'',
            IPAddress = ''93.184.216.34'',
            Location = Some \<lparr>IP = [], City = ''Paris'', Region = [], Country = ''France'',
                              Latitude = 0, Longitude = 0\<rparr>\<rparr>, None)"
    by code_simp
  with getIPLocation_never_nil_nil [of ?E "''93.184.216.34''" "[]" "''example.com''"]
  show ?thesis by simp
qed

section \<open>The resolver\<close>

text \<open>With an address in the answer, \<open>getIPAddress\<close> returns the text of the first one.\<close>

lemma getIPAddress_first_address:
  "net_LookupIP env w domain = (ips, None) \<Longrightarrow> ips \<noteq> [] \<Longrightarrow>
     fst (getIPAddress env domain w) = (net_IP_String env (hd ips), None)"
  by (simp add: getIPAddress_def LookupIP_call_def hd_conv_nth)

text \<open>Without an address and without an error it returns the empty string and no error.\<close>

lemma getIPAddress_empty_lookup:
  "net_LookupIP env w domain = ([], None) \<Longrightarrow> fst (getIPAddress env domain w) = ([], None)"
  by (simp add: getIPAddress_def LookupIP_call_def)

text \<open>
  Claim C4 fails on the code. When \<^verbatim>\<open>net.LookupIP\<close> answers with no address and no error,
  the guard \<^verbatim>\<open>err != nil || len(ips) == 0\<close> of \<open>getIPAddress\<close> is taken but returns the nil
  error, and \<open>ValidateDomain\<close> goes on with the empty address: the record it returns has
  an empty \<open>IPAddress\<close>.
\<close>

theorem ValidateDomain_empty_lookup_gives_empty_address:
  "net_LookupIP (example_env dns_empty http_all) [] ''example.com'' = ([], None) \<and>
   net_LookupIP (example_env dns_empty http_all) [DNSLookup ''example.com''] ''example.com'' =
     ([], None) \<and>
   fst (ValidateDomain (example_env dns_empty http_all) ''example.com'' []) =
     (Some \<lparr>OriginalInput = ''example.com'', CleanDomain = ''example.com'',
            IPAddress = [],
            Location = Some \<lparr>IP = [], City = ''Paris'', Region = [], Country = ''France'',
                              Latitude = 0, Longitude = 0\<rparr>\<rparr>, None)"
  by code_simp

text \<open>
  Claim C5 as stated fails: for a lookup that yields no address and no error the check
  \<open>checkDNSResolution\<close> succeeds, and \<open>ValidateDomain\<close> does not fail with ``cannot resolve
  domain''; on this network it returns a record.
\<close>

theorem empty_lookup_is_not_unresolvable:
  "net_LookupIP (example_env dns_empty http_all) [] ''example.com'' = ([], None) \<and>
   fst (checkDNSResolution (example_env dns_empty http_all) ''example.com'' []) \<and>
   fst (fst (ValidateDomain (example_env dns_empty http_all) ''example.com'' [])) \<noteq> None \<and>
   fst (ValidateDomain (example_env dns_empty http_all) ''example.com'' []) \<noteq>
     (None, Some (Error ''cannot resolve domain''))"
  by code_simp

text \<open>
  Claim C5, as amended. \<open>checkDNSResolution\<close> looks at the error of the lookup only: it
  holds exactly when the lookup returns no error, whatever the addresses. When the lookup of
  a well-formed domain returns an error, \<open>ValidateDomain\<close> fails with ``cannot resolve
  domain''.
\<close>

theorem lookup_error_is_unresolvable:
  "(fst (checkDNSResolution env domain w) \<longleftrightarrow> snd (net_LookupIP env w domain) = None) \<and>
   (isValidDomainFormat (cleanDomainInput env input) \<and>
    snd (net_LookupIP env w (cleanDomainInput env input)) = Some e \<longrightarrow>
      fst (ValidateDomain env input w) = (None, Some (Error ''cannot resolve domain'')))"
  by (auto simp: ValidateDomain_def Let_def checkDNSResolution_def LookupIP_call_def
      split: prod.splits)

text \<open>The amended claim on a resolver that fails.\<close>

theorem lookup_error_is_unresolvable_witness:
  "isValidDomainFormat (cleanDomainInput (example_env dns_fail http_all) ''example.com'') \<and>
   snd (net_LookupIP (example_env dns_fail http_all) [] ''example.com'') =
     Some (Error ''no such host'') \<and>
   \<not> fst (checkDNSResolution (example_env dns_fail http_all) ''example.com'' []) \<and>
   fst (ValidateDomain (example_env dns_fail http_all) ''example.com'' []) =
     (None, Some (Error ''cannot resolve domain''))"
proof -
  let ?E = "example_env dns_fail http_all"
  have v: "isValidDomainFormat (cleanDomainInput ?E ''example.com'')"
    by (simp add: example_clean example_valid)
  have l: "snd (net_LookupIP ?E [] ''example.com'') = Some (Error ''no such host'')"
    by code_simp
  from v l show ?thesis
    using lookup_error_is_unresolvable [of ?E "''example.com''" "[]" "''example.com''"
        "Error ''no such host''"]
    unfolding example_clean by simp
qed

section \<open>The adapters\<close>

subsection \<open>A response without city and country\<close>

lemma getIPAPILocation_no_data:
  assumes "http_Get env w (''https://ipapi.co/'' @ ip @ ''/json/'') = Response status (Inr body)"
    and "json_Unmarshal_LocationDetails env body = (location, None)"
    and "City location = []" and "Country location = []"
  shows "fst (getIPAPILocation env ip w) = (None, Some (Error ''no location data''))"
  using assms by (simp add: getIPAPILocation_def Get_call_def)

lemma getIPInfoLocation_no_data:
  assumes "http_Get env w (''https://ipinfo.io/'' @ ip @ ''/json'') = Response status (Inr body)"
    and "json_Unmarshal_map env body = (data, None)"
    and "assert_string (data ''city'') = []" and "assert_string (data ''country'') = []"
  shows "fst (getIPInfoLocation env ip w) = (None, Some (Error ''no location data''))"
  using assms by (simp add: getIPInfoLocation_def Get_call_def Let_def)

lemma getFreeGeoIPLocation_no_data:
  assumes "http_Get env w (''https://freegeoip.app/json/'' @ ip) = Response status (Inr body)"
    and "json_Unmarshal_LocationDetails env body = (location, None)"
    and "City location = []" and "Country location = []"
  shows "fst (getFreeGeoIPLocation env ip w) = (None, Some (Error ''no location data''))"
  using assms by (simp add: getFreeGeoIPLocation_def Get_call_def)

lemma getIPAPILocation_usable:
  "fst (getIPAPILocation env ip w) = (Some loc, e) \<Longrightarrow> City loc \<noteq> [] \<or> Country loc \<noteq> []"
  by (auto simp: getIPAPILocation_def Get_call_def
      split: http_result.splits sum.splits prod.splits option.splits if_splits)

lemma getIPInfoLocation_usable:
  "fst (getIPInfoLocation env ip w) = (Some loc, e) \<Longrightarrow> City loc \<noteq> [] \<or> Country loc \<noteq> []"
  unfolding getIPInfoLocation_def Get_call_def Let_def
  by (auto split: http_result.splits sum.splits prod.splits option.splits if_splits)

lemma getFreeGeoIPLocation_usable:
  "fst (getFreeGeoIPLocation env ip w) = (Some loc, e) \<Longrightarrow> City loc \<noteq> [] \<or> Country loc \<noteq> []"
  by (auto simp: getFreeGeoIPLocation_def Get_call_def
      split: http_result.splits sum.splits prod.splits option.splits if_splits)

lemma getIPLocation_usable:
  "fst (getIPLocation env ip w) = (Some loc, e) \<Longrightarrow> City loc \<noteq> [] \<or> Country loc \<noteq> []"
  unfolding getIPLocation_unfold Let_def
  by (auto split: if_splits
      dest: getIPAPILocation_usable getIPInfoLocation_usable getFreeGeoIPLocation_usable)


text \<open>
  Claim C6. An adapter whose response decodes to an empty city and an empty country
  returns the error ``no location data'' and no record. Hence every record returned by an
  adapter, and so by \<open>getIPLocation\<close>, has a city or a country.
\<close>

theorem no_data_is_an_error:
  "(http_Get env w (''https://ipapi.co/'' @ ip @ ''/json/'') = Response status (Inr body) \<and>
    json_Unmarshal_LocationDetails env body = (location, None) \<and>
    City location = [] \<and> Country location = [] \<longrightarrow>
      fst (getIPAPILocation env ip w) = (None, Some (Error ''no location data''))) \<and>
   (http_Get env w (''https://ipinfo.io/'' @ ip @ ''/json'') = Response status (Inr body) \<and>
    json_Unmarshal_map env body = (data, None) \<and>
    assert_string (data ''city'') = [] \<and> assert_string (data ''country'') = [] \<longrightarrow>
      fst (getIPInfoLocation env ip w) = (None, Some (Error ''no location data''))) \<and>
   (http_Get env w (''https://freegeoip.app/json/'' @ ip) = Response status (Inr body) \<and>
    json_Unmarshal_LocationDetails env body = (location, None) \<and>
    City location = [] \<and> Country location = [] \<longrightarrow>
      fst (getFreeGeoIPLocation env ip w) = (None, Some (Error ''no location data''))) \<and>
   (\<forall>loc e. fst (getIPAPILocation env ip w) = (Some loc, e) \<longrightarrow>
      City loc \<noteq> [] \<or> Country loc \<noteq> []) \<and>
   (\<forall>loc e. fst (getIPInfoLocation env ip w) = (Some loc, e) \<longrightarrow>
      City loc \<noteq> [] \<or> Country loc \<noteq> []) \<and>
   (\<forall>loc e. fst (getFreeGeoIPLocation env ip w) = (Some loc, e) \<longrightarrow>
      City loc \<noteq> [] \<or> Country loc \<noteq> []) \<and>
   (\<forall>loc e. fst (getIPLocation env ip w) = (Some loc, e) \<longrightarrow>
      City loc \<noteq> [] \<or> Country loc \<noteq> [])"
proof (intro conjI allI impI)
  fix loc e assume "fst (getIPAPILocation env ip w) = (Some loc, e)"
  then show "City loc \<noteq> [] \<or> Country loc \<noteq> []" by (rule getIPAPILocation_usable)
next
  fix loc e assume "fst (getIPInfoLocation env ip w) = (Some loc, e)"
  then show "City loc \<noteq> [] \<or> Country loc \<noteq> []" by (rule getIPInfoLocation_usable)
next
  fix loc e assume "fst (getFreeGeoIPLocation env ip w) = (Some loc, e)"
  then show "City loc \<noteq> [] \<or> Country loc \<noteq> []" by (rule getFreeGeoIPLocation_usable)
next
  fix loc e assume "fst (getIPLocation env ip w) = (Some loc, e)"
  then show "City loc \<noteq> [] \<or> Country loc \<noteq> []" by (rule getIPLocation_usable)
next
  assume "http_Get env w (''https://ipapi.co/'' @ ip @ ''/json/'') = Response status (Inr body) \<and>
    json_Unmarshal_LocationDetails env body = (location, None) \<and>
    City location = [] \<and> Country location = []"
  then show "fst (getIPAPILocation env ip w) = (None, Some (Error ''no location data''))"
    by (elim conjE) (rule getIPAPILocation_no_data)
next
  assume "http_Get env w (''https://ipinfo.io/'' @ ip @ ''/json'') = Response status (Inr body) \<and>
    json_Unmarshal_map env body = (data, None) \<and>
    assert_string (data ''city'') = [] \<and> assert_string (data ''country'') = []"
  then show "fst (getIPInfoLocation env ip w) = (None, Some (Error ''no location data''))"
    by (elim conjE) (rule getIPInfoLocation_no_data)
next
  assume "http_Get env w (''https://freegeoip.app/json/'' @ ip) = Response status (Inr body) \<and>
    json_Unmarshal_LocationDetails env body = (location, None) \<and>
    City location = [] \<and> Country location = []"
  then show "fst (getFreeGeoIPLocation env ip w) = (None, Some (Error ''no location data''))"
    by (elim conjE) (rule getFreeGeoIPLocation_no_data)
qed

text \<open>
  The claim on a network whose answers hold no data (each adapter fails), and on one whose
  answers name Paris, France.
\<close>

theorem no_data_is_an_error_witness:
  "fst (getIPAPILocation (example_env dns_ok http_no_data) ''93.184.216.34'' []) =
     (None, Some (Error ''no location data'')) \<and>
   fst (getIPInfoLocation (example_env dns_ok http_no_data) ''93.184.216.34'' []) =
     (None, Some (Error ''no location data'')) \<and>
   fst (getFreeGeoIPLocation (example_env dns_ok http_no_data) ''93.184.216.34'' []) =
     (None, Some (Error ''no location data'')) \<and>
   fst (getIPLocation (example_env dns_ok http_all) ''93.184.216.34'' []) =
     (Some \<lparr>IP = [], City = ''Paris'', Region = [], Country = ''France'',
             Latitude = 0, Longitude = 0\<rparr>, None) \<and>
   \<not> (City \<lparr>IP = [], City = ''Paris'', Region = [], Country = ''France'',
            Latitude = 0 :: rat, Longitude = 0\<rparr> = [] \<and>
      Country \<lparr>IP = [], City = ''Paris'', Region = [], Country = ''France'',
            Latitude = 0 :: rat, Longitude = 0\<rparr> = [])"
proof -
  let ?N = "example_env dns_ok http_no_data"
  let ?I = "example_env dns_ok http_all"
  let ?ip = "''93.184.216.34''"
  have g1: "http_Get ?N [] (''https://ipapi.co/'' @ ?ip @ ''/json/'') = Response 200 (Inr body_empty)"
    and g2: "http_Get ?N [] (''https://ipinfo.io/'' @ ?ip @ ''/json'') = Response 200 (Inr body_empty)"
    and g3: "http_Get ?N [] (''https://freegeoip.app/json/'' @ ?ip) = Response 200 (Inr body_empty)"
    by (simp_all add: example_env_def http_no_data_def)
  have u1: "json_Unmarshal_LocationDetails ?N body_empty = (zero_LocationDetails, None)"
    and u2: "json_Unmarshal_map ?N body_empty = (Map.empty, None)"
    by (simp_all add: example_env_def example_Unmarshal_LocationDetails_def
        example_Unmarshal_map_def)
  have z: "City (zero_LocationDetails :: rat LocationDetails) = []"
      "Country (zero_LocationDetails :: rat LocationDetails) = []"
    by (simp_all add: zero_LocationDetails_def)
  have m: "assert_string ((Map.empty :: string \<Rightarrow> rat iface option) ''city'') = []"
      "assert_string ((Map.empty :: string \<Rightarrow> rat iface option) ''country'') = []"
    by simp_all
  note inst = no_data_is_an_error [of ?N "[]" ?ip 200 body_empty zero_LocationDetails Map.empty]
  have a: "fst (getIPAPILocation ?N ?ip []) = (None, Some (Error ''no location data''))"
    using inst [THEN conjunct1] g1 u1 z by simp
  have b: "fst (getIPInfoLocation ?N ?ip []) = (None, Some (Error ''no location data''))"
    using inst [THEN conjunct2, THEN conjunct1] g2 u2 m by simp
  have c: "fst (getFreeGeoIPLocation ?N ?ip []) = (None, Some (Error ''no location data''))"
    using inst [THEN conjunct2, THEN conjunct2, THEN conjunct1] g3 u1 z by simp
  have run: "fst (getIPLocation ?I ?ip []) =
     (Some \<lparr>IP = [], City = ''Paris'', Region = [], Country = ''France'',
             Latitude = 0, Longitude = 0\<rparr>, None)"
    by code_simp
  have d: "\<not> (City \<lparr>IP = [], City = ''Paris'', Region = [], Country = ''France'',
            Latitude = 0 :: rat, Longitude = 0\<rparr> = [] \<and>
      Country \<lparr>IP = [], City = ''Paris'', Region = [], Country = ''France'',
            Latitude = 0 :: rat, Longitude = 0\<rparr> = [])"
    using no_data_is_an_error [of ?I "[]" ?ip, THEN conjunct2, THEN conjunct2, THEN conjunct2,
        THEN conjunct2, THEN conjunct2, THEN conjunct2] run
    by simp
  from a b c run d show ?thesis by (intro conjI)
qed

subsection \<open>Failures of the request\<close>

lemma getIPAPILocation_failures:
  "http_Get env w (''https://ipapi.co/'' @ ip @ ''/json/'') = GetErr e \<Longrightarrow>
     fst (getIPAPILocation env ip w) = (None, Some e)"
  "http_Get env w (''https://ipapi.co/'' @ ip @ ''/json/'') = Response status (Inl e) \<Longrightarrow>
     fst (getIPAPILocation env ip w) = (None, Some e)"
  "http_Get env w (''https://ipapi.co/'' @ ip @ ''/json/'') = Response status (Inr body) \<Longrightarrow>
   snd (json_Unmarshal_LocationDetails env body) = Some e \<Longrightarrow>
     fst (getIPAPILocation env ip w) = (None, Some e)"
  by (auto simp: getIPAPILocation_def Get_call_def split: prod.splits option.splits)

lemma getIPInfoLocation_failures:
  "http_Get env w (''https://ipinfo.io/'' @ ip @ ''/json'') = GetErr e \<Longrightarrow>
     fst (getIPInfoLocation env ip w) = (None, Some e)"
  "http_Get env w (''https://ipinfo.io/'' @ ip @ ''/json'') = Response status (Inl e) \<Longrightarrow>
     fst (getIPInfoLocation env ip w) = (None, Some e)"
  "http_Get env w (''https://ipinfo.io/'' @ ip @ ''/json'') = Response status (Inr body) \<Longrightarrow>
   snd (json_Unmarshal_map env body) = Some e \<Longrightarrow>
     fst (getIPInfoLocation env ip w) = (None, Some e)"
  by (auto simp: getIPInfoLocation_def Get_call_def split: prod.splits option.splits)

lemma getFreeGeoIPLocation_failures:
  "http_Get env w (''https://freegeoip.app/json/'' @ ip) = GetErr e \<Longrightarrow>
     fst (getFreeGeoIPLocation env ip w) = (None, Some e)"
  "http_Get env w (''https://freegeoip.app/json/'' @ ip) = Response status (Inl e) \<Longrightarrow>
     fst (getFreeGeoIPLocation env ip w) = (None, Some e)"
  "http_Get env w (''https://freegeoip.app/json/'' @ ip) = Response status (Inr body) \<Longrightarrow>
   snd (json_Unmarshal_LocationDetails env body) = Some e \<Longrightarrow>
     fst (getFreeGeoIPLocation env ip w) = (None, Some e)"
  by (auto simp: getFreeGeoIPLocation_def Get_call_def split: prod.splits option.splits)

lemma status_ignored:
  "fst (getIPAPILocation (env\<lparr>http_Get := \<lambda>w url. Response s1 rd\<rparr>) ip w) =
   fst (getIPAPILocation (env\<lparr>http_Get := \<lambda>w url. Response s2 rd\<rparr>) ip w)"
  "fst (getIPInfoLocation (env\<lparr>http_Get := \<lambda>w url. Response s1 rd\<rparr>) ip w) =
   fst (getIPInfoLocation (env\<lparr>http_Get := \<lambda>w url. Response s2 rd\<rparr>) ip w)"
  "fst (getFreeGeoIPLocation (env\<lparr>http_Get := \<lambda>w url. Response s1 rd\<rparr>) ip w) =
   fst (getFreeGeoIPLocation (env\<lparr>http_Get := \<lambda>w url. Response s2 rd\<rparr>) ip w)"
  by (auto simp: getIPAPILocation_def getIPInfoLocation_def getFreeGeoIPLocation_def
      Get_call_def Let_def split: sum.splits prod.splits option.splits iface.splits)

text \<open>A body that decodes to a city or a country is a success, whatever the status.\<close>

lemma getIPAPILocation_success:
  assumes "http_Get env w (''https://ipapi.co/'' @ ip @ ''/json/'') = Response status (Inr body)"
    and "json_Unmarshal_LocationDetails env body = (location, None)"
    and "\<not> (City location = [] \<and> Country location = [])"
  shows "fst (getIPAPILocation env ip w) = (Some location, None)"
  using assms by (auto simp: getIPAPILocation_def Get_call_def)

lemma getFreeGeoIPLocation_success:
  assumes "http_Get env w (''https://freegeoip.app/json/'' @ ip) = Response status (Inr body)"
    and "json_Unmarshal_LocationDetails env body = (location, None)"
    and "\<not> (City location = [] \<and> Country location = [])"
  shows "fst (getFreeGeoIPLocation env ip w) = (Some location, None)"
  using assms by (auto simp: getFreeGeoIPLocation_def Get_call_def)

lemma getIPInfoLocation_success:
  assumes "http_Get env w (''https://ipinfo.io/'' @ ip @ ''/json'') = Response status (Inr body)"
    and "json_Unmarshal_map env body = (data, None)"
    and "\<not> (assert_string (data ''city'') = [] \<and> assert_string (data ''country'') = [])"
  shows "\<exists>loc. fst (getIPInfoLocation env ip w) = (Some loc, None) \<and>
           City loc = assert_string (data ''city'') \<and>
           Region loc = assert_string (data ''region'') \<and>
           Country loc = assert_string (data ''country'')"
  using assms by (auto simp: getIPInfoLocation_def Get_call_def Let_def)

lemma getIPAPILocation_fails_iff:
  assumes "http_Get env w (''https://ipapi.co/'' @ ip @ ''/json/'') = Response status (Inr body)"
  shows "fst (fst (getIPAPILocation env ip w)) = None \<longleftrightarrow>
     snd (json_Unmarshal_LocationDetails env body) \<noteq> None \<or>
     (City (fst (json_Unmarshal_LocationDetails env body)) = [] \<and>
      Country (fst (json_Unmarshal_LocationDetails env body)) = [])"
  using assms
  by (cases "json_Unmarshal_LocationDetails env body")
    (auto simp: getIPAPILocation_def Get_call_def split: option.splits)

lemma getFreeGeoIPLocation_fails_iff:
  assumes "http_Get env w (''https://freegeoip.app/json/'' @ ip) = Response status (Inr body)"
  shows "fst (fst (getFreeGeoIPLocation env ip w)) = None \<longleftrightarrow>
     snd (json_Unmarshal_LocationDetails env body) \<noteq> None \<or>
     (City (fst (json_Unmarshal_LocationDetails env body)) = [] \<and>
      Country (fst (json_Unmarshal_LocationDetails env body)) = [])"
  using assms
  by (cases "json_Unmarshal_LocationDetails env body")
    (auto simp: getFreeGeoIPLocation_def Get_call_def split: option.splits)

lemma getIPInfoLocation_fails_iff:
  assumes "http_Get env w (''https://ipinfo.io/'' @ ip @ ''/json'') = Response status (Inr body)"
  shows "fst (fst (getIPInfoLocation env ip w)) = None \<longleftrightarrow>
     snd (json_Unmarshal_map env body) \<noteq> None \<or>
     (assert_string (fst (json_Unmarshal_map env body) ''city'') = [] \<and>
      assert_string (fst (json_Unmarshal_map env body) ''country'') = [])"
  using assms
  by (cases "json_Unmarshal_map env body")
    (auto simp: getIPInfoLocation_def Get_call_def Let_def split: option.splits)


text \<open>
  Claim C7 as stated fails: no adapter looks at the status code. A response with status 500
  whose body names a city is returned as a success.
\<close>

theorem status_500_is_accepted:
  "http_Get (example_env dns_ok http_status_500) [] ''https://ipapi.co/93.184.216.34/json/'' =
     Response 500 (Inr body_paris) \<and>
   fst (getIPAPILocation (example_env dns_ok http_status_500) ''93.184.216.34'' []) =
     (Some \<lparr>IP = [], City = ''Paris'', Region = [], Country = ''France'',
             Latitude = 0, Longitude = 0\<rparr>, None)"
  by code_simp


text \<open>
  Claim C7, as amended. For each of the three adapters, a transport failure, a failure to
  read the body and a body that the decoder rejects each make the adapter return that error
  and no record. The status code of the response has no influence on the result: for a
  response of any status whose body was read, the adapter returns no record exactly when the
  decoder rejects the body or the decoded city and country are both empty, and otherwise it
  returns the decoded record.
\<close>

theorem adapter_failures:
  "(http_Get env w (''https://ipapi.co/'' @ ip @ ''/json/'') = GetErr e \<longrightarrow>
      fst (getIPAPILocation env ip w) = (None, Some e)) \<and>
   (http_Get env w (''https://ipapi.co/'' @ ip @ ''/json/'') = Response status (Inl e) \<longrightarrow>
      fst (getIPAPILocation env ip w) = (None, Some e)) \<and>
   (http_Get env w (''https://ipapi.co/'' @ ip @ ''/json/'') = Response status (Inr body) \<and>
    snd (json_Unmarshal_LocationDetails env body) = Some e \<longrightarrow>
      fst (getIPAPILocation env ip w) = (None, Some e)) \<and>
   (http_Get env w (''https://ipinfo.io/'' @ ip @ ''/json'') = GetErr e \<longrightarrow>
      fst (getIPInfoLocation env ip w) = (None, Some e)) \<and>
   (http_Get env w (''https://ipinfo.io/'' @ ip @ ''/json'') = Response status (Inl e) \<longrightarrow>
      fst (getIPInfoLocation env ip w) = (None, Some e)) \<and>
   (http_Get env w (''https://ipinfo.io/'' @ ip @ ''/json'') = Response status (Inr body) \<and>
    snd (json_Unmarshal_map env body) = Some e \<longrightarrow>
      fst (getIPInfoLocation env ip w) = (None, Some e)) \<and>
   (http_Get env w (''https://freegeoip.app/json/'' @ ip) = GetErr e \<longrightarrow>
      fst (getFreeGeoIPLocation env ip w) = (None, Some e)) \<and>
   (http_Get env w (''https://freegeoip.app/json/'' @ ip) = Response status (Inl e) \<longrightarrow>
      fst (getFreeGeoIPLocation env ip w) = (None, Some e)) \<and>
   (http_Get env w (''https://freegeoip.app/json/'' @ ip) = Response status (Inr body) \<and>
    snd (json_Unmarshal_LocationDetails env body) = Some e \<longrightarrow>
      fst (getFreeGeoIPLocation env ip w) = (None, Some e)) \<and>
   fst (getIPAPILocation (env\<lparr>http_Get := \<lambda>w url. Response s1 rd\<rparr>) ip w) =
     fst (getIPAPILocation (env\<lparr>http_Get := \<lambda>w url. Response s2 rd\<rparr>) ip w) \<and>
   fst (getIPInfoLocation (env\<lparr>http_Get := \<lambda>w url. Response s1 rd\<rparr>) ip w) =
     fst (getIPInfoLocation (env\<lparr>http_Get := \<lambda>w url. Response s2 rd\<rparr>) ip w) \<and>
   fst (getFreeGeoIPLocation (env\<lparr>http_Get := \<lambda>w url. Response s1 rd\<rparr>) ip w) =
     fst (getFreeGeoIPLocation (env\<lparr>http_Get := \<lambda>w url. Response s2 rd\<rparr>) ip w) \<and>
   (http_Get env w (''https://ipapi.co/'' @ ip @ ''/json/'') = Response status (Inr body) \<longrightarrow>
      (fst (fst (getIPAPILocation env ip w)) = None \<longleftrightarrow>
         snd (json_Unmarshal_LocationDetails env body) \<noteq> None \<or>
         (City (fst (json_Unmarshal_LocationDetails env body)) = [] \<and>
          Country (fst (json_Unmarshal_LocationDetails env body)) = []))) \<and>
   (http_Get env w (''https://ipinfo.io/'' @ ip @ ''/json'') = Response status (Inr body) \<longrightarrow>
      (fst (fst (getIPInfoLocation env ip w)) = None \<longleftrightarrow>
         snd (json_Unmarshal_map env body) \<noteq> None \<or>
         (assert_string (fst (json_Unmarshal_map env body) ''city'') = [] \<and>
          assert_string (fst (json_Unmarshal_map env body) ''country'') = []))) \<and>
   (http_Get env w (''https://freegeoip.app/json/'' @ ip) = Response status (Inr body) \<longrightarrow>
      (fst (fst (getFreeGeoIPLocation env ip w)) = None \<longleftrightarrow>
         snd (json_Unmarshal_LocationDetails env body) \<noteq> None \<or>
         (City (fst (json_Unmarshal_LocationDetails env body)) = [] \<and>
          Country (fst (json_Unmarshal_LocationDetails env body)) = []))) \<and>
   (http_Get env w (''https://ipapi.co/'' @ ip @ ''/json/'') = Response status (Inr body) \<and>
    json_Unmarshal_LocationDetails env body = (location, None) \<and>
    \<not> (City location = [] \<and> Country location = []) \<longrightarrow>
      fst (getIPAPILocation env ip w) = (Some location, None)) \<and>
   (http_Get env w (''https://ipinfo.io/'' @ ip @ ''/json'') = Response status (Inr body) \<and>
    json_Unmarshal_map env body = (data, None) \<and>
    \<not> (assert_string (data ''city'') = [] \<and> assert_string (data ''country'') = []) \<longrightarrow>
      (\<exists>loc. fst (getIPInfoLocation env ip w) = (Some loc, None) \<and>
             City loc = assert_string (data ''city'') \<and>
             Region loc = assert_string (data ''region'') \<and>
             Country loc = assert_string (data ''country''))) \<and>
   (http_Get env w (''https://freegeoip.app/json/'' @ ip) = Response status (Inr body) \<and>
    json_Unmarshal_LocationDetails env body = (location, None) \<and>
    \<not> (City location = [] \<and> Country location = []) \<longrightarrow>
      fst (getFreeGeoIPLocation env ip w) = (Some location, None))"
proof (intro conjI)
  show "http_Get env w (''https://ipapi.co/'' @ ip @ ''/json/'') = GetErr e \<longrightarrow>
      fst (getIPAPILocation env ip w) = (None, Some e)"
    by (auto intro: getIPAPILocation_failures(1))
  show "http_Get env w (''https://ipapi.co/'' @ ip @ ''/json/'') = Response status (Inl e) \<longrightarrow>
      fst (getIPAPILocation env ip w) = (None, Some e)"
    by (auto intro: getIPAPILocation_failures(2))
  show "http_Get env w (''https://ipapi.co/'' @ ip @ ''/json/'') = Response status (Inr body) \<and>
    snd (json_Unmarshal_LocationDetails env body) = Some e \<longrightarrow>
      fst (getIPAPILocation env ip w) = (None, Some e)"
    by (auto intro: getIPAPILocation_failures(3))
  show "http_Get env w (''https://ipinfo.io/'' @ ip @ ''/json'') = GetErr e \<longrightarrow>
      fst (getIPInfoLocation env ip w) = (None, Some e)"
    by (auto intro: getIPInfoLocation_failures(1))
  show "http_Get env w (''https://ipinfo.io/'' @ ip @ ''/json'') = Response status (Inl e) \<longrightarrow>
      fst (getIPInfoLocation env ip w) = (None, Some e)"
    by (auto intro: getIPInfoLocation_failures(2))
  show "http_Get env w (''https://ipinfo.io/'' @ ip @ ''/json'') = Response status (Inr body) \<and>
    snd (json_Unmarshal_map env body) = Some e \<longrightarrow>
      fst (getIPInfoLocation env ip w) = (None, Some e)"
    by (auto intro: getIPInfoLocation_failures(3))
  show "http_Get env w (''https://freegeoip.app/json/'' @ ip) = GetErr e \<longrightarrow>
      fst (getFreeGeoIPLocation env ip w) = (None, Some e)"
    by (auto intro: getFreeGeoIPLocation_failures(1))
  show "http_Get env w (''https://freegeoip.app/json/'' @ ip) = Response status (Inl e) \<longrightarrow>
      fst (getFreeGeoIPLocation env ip w) = (None, Some e)"
    by (auto intro: getFreeGeoIPLocation_failures(2))
  show "http_Get env w (''https://freegeoip.app/json/'' @ ip) = Response status (Inr body) \<and>
    snd (json_Unmarshal_LocationDetails env body) = Some e \<longrightarrow>
      fst (getFreeGeoIPLocation env ip w) = (None, Some e)"
    by (auto intro: getFreeGeoIPLocation_failures(3))
  show "fst (getIPAPILocation (env\<lparr>http_Get := \<lambda>w url. Response s1 rd\<rparr>) ip w) =
     fst (getIPAPILocation (env\<lparr>http_Get := \<lambda>w url. Response s2 rd\<rparr>) ip w)"
    by (rule status_ignored(1))
  show "fst (getIPInfoLocation (env\<lparr>http_Get := \<lambda>w url. Response s1 rd\<rparr>) ip w) =
     fst (getIPInfoLocation (env\<lparr>http_Get := \<lambda>w url. Response s2 rd\<rparr>) ip w)"
    by (rule status_ignored(2))
  show "fst (getFreeGeoIPLocation (env\<lparr>http_Get := \<lambda>w url. Response s1 rd\<rparr>) ip w) =
     fst (getFreeGeoIPLocation (env\<lparr>http_Get := \<lambda>w url. Response s2 rd\<rparr>) ip w)"
    by (rule status_ignored(3))
  show "http_Get env w (''https://ipapi.co/'' @ ip @ ''/json/'') = Response status (Inr body) \<longrightarrow>
      (fst (fst (getIPAPILocation env ip w)) = None \<longleftrightarrow>
         snd (json_Unmarshal_LocationDetails env body) \<noteq> None \<or>
         (City (fst (json_Unmarshal_LocationDetails env body)) = [] \<and>
          Country (fst (json_Unmarshal_LocationDetails env body)) = []))"
    by (rule impI) (erule getIPAPILocation_fails_iff)
  show "http_Get env w (''https://ipinfo.io/'' @ ip @ ''/json'') = Response status (Inr body) \<longrightarrow>
      (fst (fst (getIPInfoLocation env ip w)) = None \<longleftrightarrow>
         snd (json_Unmarshal_map env body) \<noteq> None \<or>
         (assert_string (fst (json_Unmarshal_map env body) ''city'') = [] \<and>
          assert_string (fst (json_Unmarshal_map env body) ''country'') = []))"
    by (rule impI) (erule getIPInfoLocation_fails_iff)
  show "http_Get env w (''https://freegeoip.app/json/'' @ ip) = Response status (Inr body) \<longrightarrow>
      (fst (fst (getFreeGeoIPLocation env ip w)) = None \<longleftrightarrow>
         snd (json_Unmarshal_LocationDetails env body) \<noteq> None \<or>
         (City (fst (json_Unmarshal_LocationDetails env body)) = [] \<and>
          Country (fst (json_Unmarshal_LocationDetails env body)) = []))"
    by (rule impI) (erule getFreeGeoIPLocation_fails_iff)
  show "http_Get env w (''https://ipapi.co/'' @ ip @ ''/json/'') = Response status (Inr body) \<and>
    json_Unmarshal_LocationDetails env body = (location, None) \<and>
    \<not> (City location = [] \<and> Country location = []) \<longrightarrow>
      fst (getIPAPILocation env ip w) = (Some location, None)"
    by (rule impI, elim conjE) (rule getIPAPILocation_success)
  show "http_Get env w (''https://ipinfo.io/'' @ ip @ ''/json'') = Response status (Inr body) \<and>
    json_Unmarshal_map env body = (data, None) \<and>
    \<not> (assert_string (data ''city'') = [] \<and> assert_string (data ''country'') = []) \<longrightarrow>
      (\<exists>loc. fst (getIPInfoLocation env ip w) = (Some loc, None) \<and>
             City loc = assert_string (data ''city'') \<and>
             Region loc = assert_string (data ''region'') \<and>
             Country loc = assert_string (data ''country''))"
    by (rule impI, elim conjE) (rule getIPInfoLocation_success)
  show "http_Get env w (''https://freegeoip.app/json/'' @ ip) = Response status (Inr body) \<and>
    json_Unmarshal_LocationDetails env body = (location, None) \<and>
    \<not> (City location = [] \<and> Country location = []) \<longrightarrow>
      fst (getFreeGeoIPLocation env ip w) = (Some location, None)"
    by (rule impI, elim conjE) (rule getFreeGeoIPLocation_success)
qed


text \<open>
  The amended claim on a network that cannot be reached, on one whose bodies break off, on
  one that answers with HTML, and on one that answers Paris, France under status 500.
\<close>

theorem adapter_failures_witness:
  "fst (getIPAPILocation (example_env dns_ok http_down) ''93.184.216.34'' []) =
     (None, Some (Error ''connection refused'')) \<and>
   fst (getIPInfoLocation (example_env dns_ok http_down) ''93.184.216.34'' []) =
     (None, Some (Error ''connection refused'')) \<and>
   fst (getFreeGeoIPLocation (example_env dns_ok http_down) ''93.184.216.34'' []) =
     (None, Some (Error ''connection refused'')) \<and>
   fst (getIPAPILocation (example_env dns_ok http_read_error) ''93.184.216.34'' []) =
     (None, Some (Error ''unexpected EOF'')) \<and>
   fst (getIPInfoLocation (example_env dns_ok http_read_error) ''93.184.216.34'' []) =
     (None, Some (Error ''unexpected EOF'')) \<and>
   fst (getFreeGeoIPLocation (example_env dns_ok http_read_error) ''93.184.216.34'' []) =
     (None, Some (Error ''unexpected EOF'')) \<and>
   fst (getIPAPILocation (example_env dns_ok http_garbage) ''93.184.216.34'' []) =
     (None, Some (Error ''invalid character'')) \<and>
   fst (getIPInfoLocation (example_env dns_ok http_garbage) ''93.184.216.34'' []) =
     (None, Some (Error ''invalid character'')) \<and>
   fst (getFreeGeoIPLocation (example_env dns_ok http_garbage) ''93.184.216.34'' []) =
     (None, Some (Error ''invalid character'')) \<and>
   http_Get (example_env dns_ok http_status_500) [] ''https://freegeoip.app/json/93.184.216.34'' =
     Response 500 (Inr body_paris) \<and>
   fst (getIPAPILocation (example_env dns_ok http_status_500) ''93.184.216.34'' []) =
     (Some (zero_LocationDetails\<lparr>City := ''Paris'', Country := ''France''\<rparr>), None) \<and>
   (\<exists>loc. fst (getIPInfoLocation (example_env dns_ok http_status_500) ''93.184.216.34'' []) =
            (Some loc, None) \<and>
          City loc = ''Paris'' \<and> Region loc = [] \<and> Country loc = []) \<and>
   fst (getFreeGeoIPLocation (example_env dns_ok http_status_500) ''93.184.216.34'' []) =
     (Some (zero_LocationDetails\<lparr>City := ''Paris'', Country := ''France''\<rparr>), None) \<and>
   fst (fst (getFreeGeoIPLocation (example_env dns_ok http_status_500) ''93.184.216.34'' [])) \<noteq>
     None"
proof -
  let ?D = "example_env dns_ok http_down"
  let ?R = "example_env dns_ok http_read_error"
  let ?G = "example_env dns_ok http_garbage"
  let ?ip = "''93.184.216.34''"
  have d: "http_Get ?D [] url = GetErr (Error ''connection refused'')" for url
    by (simp add: example_env_def http_down_def)
  have r: "http_Get ?R [] url = Response 200 (Inl (Error ''unexpected EOF''))" for url
    by (simp add: example_env_def http_read_error_def)
  have g: "http_Get ?G [] url = Response 200 (Inr ''<html>'')" for url
    by (simp add: example_env_def http_garbage_def)
  have u: "snd (json_Unmarshal_LocationDetails ?G ''<html>'') = Some (Error ''invalid character'')"
      "snd (json_Unmarshal_map ?G ''<html>'') = Some (Error ''invalid character'')"
    by (simp_all add: example_env_def example_Unmarshal_LocationDetails_def
        example_Unmarshal_map_def body_empty_def body_paris_def body_ipinfo_def)
  note instD = adapter_failures [where env = ?D and w = "[]" and ip = ?ip and status = 200
      and body = "''<html>''" and location = zero_LocationDetails and data = Map.empty
      and e = "Error ''connection refused''" and ?s1.0 = 0 and ?s2.0 = 0 and rd = "Inl (Error [])"]
  from instD have "http_Get ?D [] (''https://ipapi.co/'' @ ?ip @ ''/json/'') = GetErr (Error ''connection refused'') \<longrightarrow>
       fst (getIPAPILocation ?D ?ip []) = (None, Some (Error ''connection refused''))"
    by (elim conjE)
  then have d1: "fst (getIPAPILocation ?D ?ip []) = (None, Some (Error ''connection refused''))"
    by (rule mp) (rule d)
  from instD have "http_Get ?D [] (''https://ipinfo.io/'' @ ?ip @ ''/json'') = GetErr (Error ''connection refused'') \<longrightarrow>
       fst (getIPInfoLocation ?D ?ip []) = (None, Some (Error ''connection refused''))"
    by (elim conjE)
  then have d2: "fst (getIPInfoLocation ?D ?ip []) = (None, Some (Error ''connection refused''))"
    by (rule mp) (rule d)
  from instD have "http_Get ?D [] (''https://freegeoip.app/json/'' @ ?ip) = GetErr (Error ''connection refused'') \<longrightarrow>
       fst (getFreeGeoIPLocation ?D ?ip []) = (None, Some (Error ''connection refused''))"
    by (elim conjE)
  then have d3: "fst (getFreeGeoIPLocation ?D ?ip []) = (None, Some (Error ''connection refused''))"
    by (rule mp) (rule d)
  note instR = adapter_failures [where env = ?R and w = "[]" and ip = ?ip and status = 200
      and body = "''<html>''" and location = zero_LocationDetails and data = Map.empty
      and e = "Error ''unexpected EOF''" and ?s1.0 = 0 and ?s2.0 = 0 and rd = "Inl (Error [])"]
  from instR have "http_Get ?R [] (''https://ipapi.co/'' @ ?ip @ ''/json/'') = Response 200 (Inl (Error ''unexpected EOF'')) \<longrightarrow>
       fst (getIPAPILocation ?R ?ip []) = (None, Some (Error ''unexpected EOF''))"
    by (elim conjE)
  then have r1: "fst (getIPAPILocation ?R ?ip []) = (None, Some (Error ''unexpected EOF''))"
    by (rule mp) (rule r)
  from instR have "http_Get ?R [] (''https://ipinfo.io/'' @ ?ip @ ''/json'') = Response 200 (Inl (Error ''unexpected EOF'')) \<longrightarrow>
       fst (getIPInfoLocation ?R ?ip []) = (None, Some (Error ''unexpected EOF''))"
    by (elim conjE)
  then have r2: "fst (getIPInfoLocation ?R ?ip []) = (None, Some (Error ''unexpected EOF''))"
    by (rule mp) (rule r)
  from instR have "http_Get ?R [] (''https://freegeoip.app/json/'' @ ?ip) = Response 200 (Inl (Error ''unexpected EOF'')) \<longrightarrow>
       fst (getFreeGeoIPLocation ?R ?ip []) = (None, Some (Error ''unexpected EOF''))"
    by (elim conjE)
  then have r3: "fst (getFreeGeoIPLocation ?R ?ip []) = (None, Some (Error ''unexpected EOF''))"
    by (rule mp) (rule r)
  note instG = adapter_failures [where env = ?G and w = "[]" and ip = ?ip and status = 200
      and body = "''<html>''" and location = zero_LocationDetails and data = Map.empty
      and e = "Error ''invalid character''" and ?s1.0 = 0 and ?s2.0 = 0 and rd = "Inl (Error [])"]
  from instG have "http_Get ?G [] (''https://ipapi.co/'' @ ?ip @ ''/json/'') = Response 200 (Inr ''<html>'') \<and>
     snd (json_Unmarshal_LocationDetails ?G ''<html>'') = Some (Error ''invalid character'') \<longrightarrow>
       fst (getIPAPILocation ?G ?ip []) = (None, Some (Error ''invalid character''))"
    by (elim conjE)
  then have g1: "fst (getIPAPILocation ?G ?ip []) = (None, Some (Error ''invalid character''))"
    by (rule mp) (intro conjI g u)
  from instG have "http_Get ?G [] (''https://ipinfo.io/'' @ ?ip @ ''/json'') = Response 200 (Inr ''<html>'') \<and>
     snd (json_Unmarshal_map ?G ''<html>'') = Some (Error ''invalid character'') \<longrightarrow>
       fst (getIPInfoLocation ?G ?ip []) = (None, Some (Error ''invalid character''))"
    by (elim conjE)
  then have g2: "fst (getIPInfoLocation ?G ?ip []) = (None, Some (Error ''invalid character''))"
    by (rule mp) (intro conjI g u)
  from instG have "http_Get ?G [] (''https://freegeoip.app/json/'' @ ?ip) = Response 200 (Inr ''<html>'') \<and>
     snd (json_Unmarshal_LocationDetails ?G ''<html>'') = Some (Error ''invalid character'') \<longrightarrow>
       fst (getFreeGeoIPLocation ?G ?ip []) = (None, Some (Error ''invalid character''))"
    by (elim conjE)
  then have g3: "fst (getFreeGeoIPLocation ?G ?ip []) = (None, Some (Error ''invalid character''))"
    by (rule mp) (intro conjI g u)
  let ?S = "example_env dns_ok http_status_500"
  let ?paris = "zero_LocationDetails\<lparr>City := ''Paris'', Country := ''France''\<rparr> :: rat LocationDetails"
  let ?data = "Map.empty(''city'' \<mapsto> IString ''Paris'', ''country_name'' \<mapsto> IString ''France'')
      :: string \<Rightarrow> rat iface option"
  have s: "http_Get ?S [] url = Response 500 (Inr body_paris)" for url
    by (simp add: example_env_def http_status_500_def)
  have us: "json_Unmarshal_LocationDetails ?S body_paris = (?paris, None)"
    by (simp add: example_env_def example_Unmarshal_LocationDetails_def body_empty_def
        body_paris_def)
  have um: "json_Unmarshal_map ?S body_paris = (?data, None)"
    by (simp add: example_env_def example_Unmarshal_map_def body_empty_def body_paris_def)
  have p: "\<not> (City ?paris = [] \<and> Country ?paris = [])" by simp
  have m: "\<not> (assert_string (?data ''city'') = [] \<and> assert_string (?data ''country'') = [])"
      "assert_string (?data ''city'') = ''Paris''" "assert_string (?data ''region'') = []"
      "assert_string (?data ''country'') = []"
    by simp_all
  note inst = adapter_failures [where env = ?S and w = "[]" and ip = ?ip and status = 500
      and body = body_paris and location = ?paris and data = ?data
      and e = "Error []" and ?s1.0 = 0 and ?s2.0 = 0 and rd = "Inl (Error [])"]
  from inst have ca:
    "http_Get ?S [] (''https://ipapi.co/'' @ ?ip @ ''/json/'') = Response 500 (Inr body_paris) \<and>
     json_Unmarshal_LocationDetails ?S body_paris = (?paris, None) \<and>
     \<not> (City ?paris = [] \<and> Country ?paris = []) \<longrightarrow>
       fst (getIPAPILocation ?S ?ip []) = (Some ?paris, None)"
    by (elim conjE)
  from inst have cb:
    "http_Get ?S [] (''https://ipinfo.io/'' @ ?ip @ ''/json'') = Response 500 (Inr body_paris) \<and>
     json_Unmarshal_map ?S body_paris = (?data, None) \<and>
     \<not> (assert_string (?data ''city'') = [] \<and> assert_string (?data ''country'') = []) \<longrightarrow>
       (\<exists>loc. fst (getIPInfoLocation ?S ?ip []) = (Some loc, None) \<and>
              City loc = assert_string (?data ''city'') \<and>
              Region loc = assert_string (?data ''region'') \<and>
              Country loc = assert_string (?data ''country''))"
    by (elim conjE)
  from inst have cc:
    "http_Get ?S [] (''https://freegeoip.app/json/'' @ ?ip) = Response 500 (Inr body_paris) \<and>
     json_Unmarshal_LocationDetails ?S body_paris = (?paris, None) \<and>
     \<not> (City ?paris = [] \<and> Country ?paris = []) \<longrightarrow>
       fst (getFreeGeoIPLocation ?S ?ip []) = (Some ?paris, None)"
    by (elim conjE)
  from inst have cd:
    "http_Get ?S [] (''https://freegeoip.app/json/'' @ ?ip) = Response 500 (Inr body_paris) \<longrightarrow>
      (fst (fst (getFreeGeoIPLocation ?S ?ip [])) = None \<longleftrightarrow>
         snd (json_Unmarshal_LocationDetails ?S body_paris) \<noteq> None \<or>
         (City (fst (json_Unmarshal_LocationDetails ?S body_paris)) = [] \<and>
          Country (fst (json_Unmarshal_LocationDetails ?S body_paris)) = []))"
    by (elim conjE)
  have sa: "fst (getIPAPILocation ?S ?ip []) = (Some ?paris, None)"
    by (rule mp [OF ca]) (intro conjI s us p)
  have "\<exists>loc. fst (getIPInfoLocation ?S ?ip []) = (Some loc, None) \<and>
              City loc = assert_string (?data ''city'') \<and>
              Region loc = assert_string (?data ''region'') \<and>
              Country loc = assert_string (?data ''country'')"
    by (rule mp [OF cb]) (intro conjI s um m(1))
  then have sb: "\<exists>loc. fst (getIPInfoLocation ?S ?ip []) = (Some loc, None) \<and>
          City loc = ''Paris'' \<and> Region loc = [] \<and> Country loc = []"
    by (simp only: m(2-4))
  have sc: "fst (getFreeGeoIPLocation ?S ?ip []) = (Some ?paris, None)"
    by (rule mp [OF cc]) (intro conjI s us p)
  have "fst (fst (getFreeGeoIPLocation ?S ?ip [])) = None \<longleftrightarrow>
         snd (json_Unmarshal_LocationDetails ?S body_paris) \<noteq> None \<or>
         (City (fst (json_Unmarshal_LocationDetails ?S body_paris)) = [] \<and>
          Country (fst (json_Unmarshal_LocationDetails ?S body_paris)) = [])"
    by (rule mp [OF cd]) (rule s)
  then have sd: "fst (fst (getFreeGeoIPLocation ?S ?ip [])) \<noteq> None"
    unfolding us by simp
  show ?thesis
    using d1 d2 d3 r1 r2 r3 g1 g2 g3 s [of "''https://freegeoip.app/json/93.184.216.34''"] sa sb sc sd
    by (simp only: simp_thms)
qed

subsection \<open>Coordinates of ipinfo.io\<close>

lemma getIPInfoLocation_coords:
  assumes "http_Get env w (''https://ipinfo.io/'' @ ip @ ''/json'') = Response status (Inr body)"
    and "json_Unmarshal_map env body = (data, None)"
    and "data ''loc'' = Some (IString s)"
    and "strings_Split s (CHR '','') = [a, b]"
    and "assert_string (data ''city'') \<noteq> [] \<or> assert_string (data ''country'') \<noteq> []"
  shows "fst (getIPInfoLocation env ip w) =
     (Some \<lparr>IP = [], City = assert_string (data ''city''),
             Region = assert_string (data ''region''),
             Country = assert_string (data ''country''),
             Latitude = (case fmt_Sscanf_f env a of Some x \<Rightarrow> x | None \<Rightarrow> 0),
             Longitude = (case fmt_Sscanf_f env b of Some x \<Rightarrow> x | None \<Rightarrow> 0)\<rparr>, None)"
  using assms
  by (auto simp: getIPInfoLocation_def Get_call_def Let_def zero_LocationDetails_def
      split: option.splits)

lemma Split_coordinates: "strings_Split ''48.85,2.35'' (CHR '','') = [''48.85'', ''2.35'']"
  by (simp add: strings_Split_def)

lemma decimal_scan_examples:
  "decimal_scan ''48.85'' = Some (4885 / 100)" "decimal_scan ''2.35'' = Some (235 / 100)"
  by (simp_all add: decimal_scan_def is_digit_def digits_value_def)

text \<open>
  Claim C8. When the \<^verbatim>\<open>loc\<close> field of the ipinfo.io response is a string that splits at
  commas into two parts, the latitude is what \<^verbatim>\<open>fmt.Sscanf\<close> reads from the first part and
  the longitude what it reads from the second (zero where the scan fails). The string
  \<open>48.85,2.35\<close> splits into \<open>48.85\<close> and \<open>2.35\<close>, and the record carries the two numbers
  that the scanner reads from them.
\<close>

theorem getIPInfoLocation_coordinates:
  "(http_Get env w (''https://ipinfo.io/'' @ ip @ ''/json'') = Response status (Inr body) \<and>
    json_Unmarshal_map env body = (data, None) \<and>
    data ''loc'' = Some (IString s) \<and>
    strings_Split s (CHR '','') = [a, b] \<and>
    (assert_string (data ''city'') \<noteq> [] \<or> assert_string (data ''country'') \<noteq> []) \<longrightarrow>
      fst (getIPInfoLocation env ip w) =
        (Some \<lparr>IP = [], City = assert_string (data ''city''),
                Region = assert_string (data ''region''),
                Country = assert_string (data ''country''),
                Latitude = (case fmt_Sscanf_f env a of Some x \<Rightarrow> x | None \<Rightarrow> 0),
                Longitude = (case fmt_Sscanf_f env b of Some x \<Rightarrow> x | None \<Rightarrow> 0)\<rparr>,
         None)) \<and>
   strings_Split ''48.85,2.35'' (CHR '','') = [''48.85'', ''2.35''] \<and>
   (http_Get env w (''https://ipinfo.io/'' @ ip @ ''/json'') = Response status (Inr body) \<and>
    json_Unmarshal_map env body = (data, None) \<and>
    data ''loc'' = Some (IString ''48.85,2.35'') \<and>
    (assert_string (data ''city'') \<noteq> [] \<or> assert_string (data ''country'') \<noteq> []) \<and>
    fmt_Sscanf_f env ''48.85'' = Some lat \<and> fmt_Sscanf_f env ''2.35'' = Some lon \<longrightarrow>
      (\<exists>loc. fst (getIPInfoLocation env ip w) = (Some loc, None) \<and>
             Latitude loc = lat \<and> Longitude loc = lon))"
proof (intro conjI impI)
  assume "http_Get env w (''https://ipinfo.io/'' @ ip @ ''/json'') = Response status (Inr body) \<and>
    json_Unmarshal_map env body = (data, None) \<and>
    data ''loc'' = Some (IString s) \<and>
    strings_Split s (CHR '','') = [a, b] \<and>
    (assert_string (data ''city'') \<noteq> [] \<or> assert_string (data ''country'') \<noteq> [])"
  then show "fst (getIPInfoLocation env ip w) =
        (Some \<lparr>IP = [], City = assert_string (data ''city''),
                Region = assert_string (data ''region''),
                Country = assert_string (data ''country''),
                Latitude = (case fmt_Sscanf_f env a of Some x \<Rightarrow> x | None \<Rightarrow> 0),
                Longitude = (case fmt_Sscanf_f env b of Some x \<Rightarrow> x | None \<Rightarrow> 0)\<rparr>,
         None)"
    by (elim conjE) (rule getIPInfoLocation_coords)
next
  show "strings_Split ''48.85,2.35'' (CHR '','') = [''48.85'', ''2.35'']"
    by (rule Split_coordinates)
next
  assume h: "http_Get env w (''https://ipinfo.io/'' @ ip @ ''/json'') = Response status (Inr body) \<and>
    json_Unmarshal_map env body = (data, None) \<and>
    data ''loc'' = Some (IString ''48.85,2.35'') \<and>
    (assert_string (data ''city'') \<noteq> [] \<or> assert_string (data ''country'') \<noteq> []) \<and>
    fmt_Sscanf_f env ''48.85'' = Some lat \<and> fmt_Sscanf_f env ''2.35'' = Some lon"
  then have "fst (getIPInfoLocation env ip w) =
        (Some \<lparr>IP = [], City = assert_string (data ''city''),
                Region = assert_string (data ''region''),
                Country = assert_string (data ''country''),
                Latitude = (case fmt_Sscanf_f env ''48.85'' of Some x \<Rightarrow> x | None \<Rightarrow> 0),
                Longitude = (case fmt_Sscanf_f env ''2.35'' of Some x \<Rightarrow> x | None \<Rightarrow> 0)\<rparr>,
         None)"
    using Split_coordinates by (intro getIPInfoLocation_coords) blast+
  with h show "\<exists>loc. fst (getIPInfoLocation env ip w) = (Some loc, None) \<and>
             Latitude loc = lat \<and> Longitude loc = lon"
    by simp
qed

text \<open>
  The claim with a scanner of decimal numerals: latitude \<open>4885 / 100\<close> and longitude
  \<open>235 / 100\<close>.
\<close>

theorem getIPInfoLocation_coordinates_witness:
  "\<exists>loc. fst (getIPInfoLocation (example_env dns_ok http_ipinfo_only) ''93.184.216.34'' []) =
           (Some loc, None) \<and>
         Latitude loc = 4885 / 100 \<and> Longitude loc = 235 / 100"
proof -
  let ?E = "example_env dns_ok http_ipinfo_only"
  let ?data = "Map.empty(''city'' \<mapsto> IString ''Paris'', ''region'' \<mapsto> IString ''IDF'',
      ''country'' \<mapsto> IString ''FR'', ''loc'' \<mapsto> IString ''48.85,2.35'')
      :: string \<Rightarrow> rat iface option"
  have g: "http_Get ?E [] (''https://ipinfo.io/'' @ ''93.184.216.34'' @ ''/json'') =
      Response 200 (Inr body_ipinfo)"
    by (simp add: example_env_def http_ipinfo_only_def)
  have u: "json_Unmarshal_map ?E body_ipinfo = (?data, None)"
    by (simp add: example_env_def example_Unmarshal_map_def body_empty_def body_paris_def
        body_ipinfo_def)
  have l: "?data ''loc'' = Some (IString ''48.85,2.35'')" by simp
  have c: "assert_string (?data ''city'') \<noteq> [] \<or> assert_string (?data ''country'') \<noteq> []"
    by simp
  have s: "fmt_Sscanf_f ?E ''48.85'' = Some (4885 / 100)"
      "fmt_Sscanf_f ?E ''2.35'' = Some (235 / 100)"
    by (simp_all add: example_env_def decimal_scan_examples)
  from g u l c s show ?thesis
    using getIPInfoLocation_coordinates [of ?E "[]" "''93.184.216.34''" 200 body_ipinfo ?data
        _ _ _ "4885 / 100" "235 / 100", THEN conjunct2, THEN conjunct2]
    by blast
qed

section \<open>Normalisation: the prefix is stripped before the white space\<close>

text \<open>
  No encoding of a white space rune is a proper prefix of another, and their bytes are the
  six ASCII white space characters or bytes from 128 on.
\<close>

lemma is_space_rune_Nil: "\<not> is_space_rune []"
  by (simp add: is_space_rune_def space_encodings_def)

lemma space_encodings_bytes:
  "list_all (list_all (\<lambda>n. (9 \<le> n \<and> n \<le> 13) \<or> n = 32 \<or> 128 \<le> n)) space_encodings"
  by code_simp

lemma space_encodings_prefix_free:
  "list_all (\<lambda>e. e \<noteq> [] \<and> length e \<le> 3 \<and>
      list_all (\<lambda>k. \<not> List.member space_encodings (take k e)) [1..<length e]) space_encodings"
  by code_simp

lemma is_space_rune_bytes:
  assumes "is_space_rune bs" and "b \<in> set bs"
  shows "(9 \<le> (of_char b :: nat) \<and> (of_char b :: nat) \<le> 13) \<or> (of_char b :: nat) = 32 \<or>
     128 \<le> (of_char b :: nat)"
proof -
  from assms(1) have "map of_char bs \<in> set space_encodings"
    by (simp add: is_space_rune_def)
  with space_encodings_bytes
  have "list_all (\<lambda>n. (9 \<le> n \<and> n \<le> 13) \<or> n = 32 \<or> 128 \<le> n) (map of_char bs :: nat list)"
    unfolding list_all_iff by blast
  with assms(2) show ?thesis
    by (simp add: list_all_iff)
qed

lemma is_space_rune_length:
  assumes "is_space_rune r"
  shows "r \<noteq> []" and "length r \<le> 3"
proof -
  from assms have "map of_char r \<in> set space_encodings"
    by (simp add: is_space_rune_def)
  with space_encodings_prefix_free
  have "map of_char r \<noteq> [] \<and> length (map of_char r :: nat list) \<le> 3"
    unfolding list_all_iff by blast
  then show "r \<noteq> []" and "length r \<le> 3" by simp_all
qed

lemma is_space_rune_proper_prefix:
  assumes "is_space_rune r" and "0 < k" and "k < length r"
  shows "\<not> is_space_rune (take k r)"
proof -
  from assms(1) have "map of_char r \<in> set space_encodings"
    by (simp add: is_space_rune_def)
  with space_encodings_prefix_free
  have "list_all (\<lambda>k. \<not> List.member space_encodings (take k (map of_char r :: nat list)))
          [1..<length (map of_char r :: nat list)]"
    unfolding list_all_iff by blast
  with assms(2,3) have "\<not> List.member space_encodings (take k (map of_char r :: nat list))"
    by (simp add: list_all_iff)
  then show ?thesis
    by (simp add: is_space_rune_def take_map)
qed

lemma leading_space_rune:
  assumes "is_space_rune r"
  shows "leading_space (r @ x) = length r"
proof -
  from is_space_rune_length [OF assms] have "0 < length r" and "length r \<le> 3"
    by simp_all
  then consider "length r = 1" | "length r = 2" | "length r = 3"
    by linarith
  then show ?thesis
  proof cases
    case 1
    with assms show ?thesis by (simp add: leading_space_def)
  next
    case 2
    with assms is_space_rune_proper_prefix [OF assms, of 1]
    show ?thesis by (simp add: leading_space_def)
  next
    case 3
    with assms is_space_rune_proper_prefix [OF assms, of 1]
      is_space_rune_proper_prefix [OF assms, of 2]
    show ?thesis by (simp add: leading_space_def)
  qed
qed

lemma TrimLeftSpace_step:
  "TrimLeftSpace s = (if leading_space s = 0 then s else TrimLeftSpace (drop (leading_space s) s))"
proof (cases s)
  case Nil
  then show ?thesis by simp
next
  case (Cons c cs)
  then show ?thesis
    by (cases "leading_space (c # cs)") simp_all
qed

lemma TrimLeftSpace_runes:
  "\<forall>r\<in>set rs. is_space_rune r \<Longrightarrow> TrimLeftSpace (concat rs @ t) = TrimLeftSpace t"
proof (induction rs)
  case Nil
  show ?case by simp
next
  case (Cons r rs)
  then have r: "is_space_rune r" by simp
  have "TrimLeftSpace (r @ concat rs @ t) = TrimLeftSpace (concat rs @ t)"
    using leading_space_rune [OF r, of "concat rs @ t"] is_space_rune_length(1) [OF r]
    by (subst TrimLeftSpace_step) simp
  with Cons show ?case by simp
qed

lemma leading_space_plain:
  assumes "\<not> ((9 \<le> (of_char c :: nat) \<and> (of_char c :: nat) \<le> 13) \<or> (of_char c :: nat) = 32 \<or>
     128 \<le> (of_char c :: nat))"
  shows "leading_space (c # cs) = 0"
proof -
  have "\<not> is_space_rune (take k (c # cs))" if "0 < k" for k
  proof
    assume "is_space_rune (take k (c # cs))"
    moreover from that have "c \<in> set (take k (c # cs))" by (cases k) simp_all
    ultimately show False using assms is_space_rune_bytes by blast
  qed
  from this [of 1] this [of 2] this [of 3] show ?thesis
    by (simp add: leading_space_def)
qed


lemma trailing_space_rune:
  assumes "trailing_space s \<noteq> 0"
  shows "is_space_rune (drop (length s - trailing_space s) s)"
  using assms by (auto simp: trailing_space_def split: if_splits)

lemma TrimRightSpace_rev_step:
  "TrimRightSpace_rev z =
     (if trailing_space (rev z) = 0 then z
      else TrimRightSpace_rev (drop (trailing_space (rev z)) z))"
proof (cases z)
  case Nil
  then show ?thesis by simp
next
  case (Cons c cs)
  then show ?thesis
    by (cases "trailing_space (rev (c # cs))") simp_all
qed

lemma TrimRightSpace_rev_keeps:
  assumes plain: "\<not> ((9 \<le> (of_char c :: nat) \<and> (of_char c :: nat) \<le> 13) \<or>
      (of_char c :: nat) = 32 \<or> 128 \<le> (of_char c :: nat))"
  shows "\<exists>x. TrimRightSpace_rev (y @ c # q) = x @ c # q"
proof (induction "length y" arbitrary: y rule: less_induct)
  case less
  let ?z = "y @ c # q"
  show ?case
  proof (cases "trailing_space (rev ?z) = 0")
    case True
    then have "TrimRightSpace_rev ?z = ?z"
      by (subst TrimRightSpace_rev_step) simp
    then show ?thesis by blast
  next
    case False
    define k where "k = trailing_space (rev ?z)"
    from False have k0: "0 < k" by (simp add: k_def)
    from False have rune: "is_space_rune (drop (length (rev ?z) - k) (rev ?z))"
      unfolding k_def by (rule trailing_space_rune)
    have ky: "k \<le> length y"
    proof (rule ccontr)
      assume "\<not> k \<le> length y"
      then have "length (rev ?z) - k \<le> length (rev q)" by simp
      then have "drop (length (rev ?z) - k) (rev ?z) =
          drop (length (rev ?z) - k) (rev q) @ c # rev y"
        by simp
      then have "c \<in> set (drop (length (rev ?z) - k) (rev ?z))" by simp
      with rune plain show False using is_space_rune_bytes by blast
    qed
    with k0 have "length (drop k y) < length y" by simp
    then obtain x where "TrimRightSpace_rev (drop k y @ c # q) = x @ c # q"
      using less by blast
    moreover from ky have "drop k ?z = drop k y @ c # q" by simp
    moreover have "TrimRightSpace_rev ?z = TrimRightSpace_rev (drop k ?z)"
      using False by (subst TrimRightSpace_rev_step) (simp add: k_def)
    ultimately show ?thesis by simp
  qed
qed

lemma TrimRightSpace_keeps_www: "\<exists>t. TrimRightSpace (''www.'' @ rest) = ''www.'' @ t"
proof -
  have "\<exists>x. TrimRightSpace_rev (rev rest @ CHR ''.'' # ''www'') = x @ CHR ''.'' # ''www''"
    by (rule TrimRightSpace_rev_keeps) simp
  then obtain x where "TrimRightSpace_rev (rev rest @ CHR ''.'' # ''www'') = x @ CHR ''.'' # ''www''"
    by blast
  then have "TrimRightSpace (''www.'' @ rest) = ''www.'' @ rev x"
    by (simp add: TrimRightSpace_def)
  then show ?thesis by blast
qed

lemma TrimLeftSpace_www: "TrimLeftSpace (''www.'' @ rest) = ''www.'' @ rest"
proof -
  have "leading_space (CHR ''w'' # ''ww.'' @ rest) = 0"
    by (rule leading_space_plain) simp
  then show ?thesis by simp
qed

lemma space_first_byte:
  assumes "rs \<noteq> []" and "\<forall>r\<in>set rs. is_space_rune r"
  shows "\<exists>b bs. concat rs @ t = b # bs \<and>
     ((9 \<le> (of_char b :: nat) \<and> (of_char b :: nat) \<le> 13) \<or> (of_char b :: nat) = 32 \<or>
      128 \<le> (of_char b :: nat))"
proof -
  from assms(1) obtain r rs' where rs: "rs = r # rs'" by (cases rs) auto
  with assms(2) have r: "is_space_rune r" by simp
  then obtain b r' where br: "r = b # r'"
    using is_space_rune_length(1) by (cases r) auto
  with r have "(9 \<le> (of_char b :: nat) \<and> (of_char b :: nat) \<le> 13) \<or> (of_char b :: nat) = 32 \<or>
      128 \<le> (of_char b :: nat)"
    using is_space_rune_bytes [of r b] by simp
  with rs br show ?thesis by simp
qed

text \<open>
  Claim C9. For an input that starts with one or more white space runes followed by
  \<open>www.\<close>, the call of \<^verbatim>\<open>strings.TrimPrefix\<close> changes nothing, because the input does not
  start with \<open>www.\<close>, and the white space is trimmed afterwards: the normalised domain
  still starts with \<open>www.\<close>.
\<close>

theorem cleanDomainInput_space_before_www:
  "rs \<noteq> [] \<and> (\<forall>r\<in>set rs. is_space_rune r) \<longrightarrow>
     strings_TrimPrefix (concat rs @ ''www.'' @ rest) ''www.'' = concat rs @ ''www.'' @ rest \<and>
     (\<exists>t. cleanDomainInput env (concat rs @ ''www.'' @ rest) = ''www.'' @ t)"
proof (intro impI)
  assume h: "rs \<noteq> [] \<and> (\<forall>r\<in>set rs. is_space_rune r)"
  let ?input = "concat rs @ ''www.'' @ rest"
  from h obtain b bs where b: "?input = b # bs"
    and sp: "(9 \<le> (of_char b :: nat) \<and> (of_char b :: nat) \<le> 13) \<or> (of_char b :: nat) = 32 \<or>
      128 \<le> (of_char b :: nat)"
    using space_first_byte [of rs "''www.'' @ rest"] by blast
  from sp have "b \<noteq> CHR ''h''" and "b \<noteq> CHR ''w''" by auto
  then have no_http: "\<not> strings_HasPrefix ?input ''http://''"
    and no_https: "\<not> strings_HasPrefix ?input ''https://''"
    and no_www: "\<not> strings_HasPrefix ?input ''www.''"
    unfolding b by (simp_all add: strings_HasPrefix_def)
  from no_www have keep: "strings_TrimPrefix ?input ''www.'' = ?input"
    by (simp add: strings_TrimPrefix_def)
  from h have "TrimLeftSpace ?input = TrimLeftSpace (''www.'' @ rest)"
    using TrimLeftSpace_runes [of rs "''www.'' @ rest"] by blast
  then have "strings_TrimSpace ?input = TrimRightSpace (''www.'' @ rest)"
    by (simp only: strings_TrimSpace_def TrimLeftSpace_www)
  with no_http no_https keep
  have "cleanDomainInput env ?input = TrimRightSpace (''www.'' @ rest)"
    by (simp only: cleanDomainInput_def Let_def simp_thms if_False)
  with TrimRightSpace_keeps_www [of rest] keep
  show "strings_TrimPrefix ?input ''www.'' = ?input \<and>
     (\<exists>t. cleanDomainInput env ?input = ''www.'' @ t)"
    by simp
qed

text \<open>The claim's example: two blanks before \<open>www.example.com\<close>.\<close>

theorem cleanDomainInput_space_before_www_witness:
  "['' '', '' ''] \<noteq> [] \<and> is_space_rune '' '' \<and>
   strings_TrimPrefix ''  www.example.com'' ''www.'' = ''  www.example.com'' \<and>
   (\<exists>t. cleanDomainInput (example_env dns_ok http_all) ''  www.example.com'' = ''www.'' @ t) \<and>
   cleanDomainInput (example_env dns_ok http_all) ''  www.example.com'' = ''www.example.com''"
proof -
  have sp: "\<forall>r\<in>set ['' '', '' '']. is_space_rune r" by code_simp
  have run: "cleanDomainInput (example_env dns_ok http_all) ''  www.example.com'' =
      ''www.example.com''"
    by code_simp
  from sp run show ?thesis
    using cleanDomainInput_space_before_www [of "['' '', '' '']" "''example.com''"
        "example_env dns_ok http_all"]
    by simp
qed

end
